theory Spec2Isabelle
  imports Complex_Main
begin

section \<open>Python values, errors and control flow\<close>

text \<open>
  Floating-point quantities of the workflow (lag bounds, repetition time, regressors, lag
  maps) are modelled as real numbers. In the start-up checks, where a rounding decides which
  lag points are kept, every floating-point operation rounds its exact result with the
  function \<open>fround\<close> of the environment, which stands for the rounding to the nearest
  double; nothing is assumed about it. Elsewhere the arithmetic is exact. The special values
  of IEEE arithmetic are modelled where they decide the outcome: the oversampled sampling
  interval after a division by zero, and the quotient of GLM coefficients in
  \<open>getderivratios\<close>.
\<close>

text \<open>
  A float is a finite number (with \<open>Fin 0\<close> the positive zero), the negative zero, an
  infinity or a NaN.
\<close>

datatype fl = Fin real | NegZero | PInf | NInf | NaN

definition is_zero :: "fl \<Rightarrow> bool" where
  "is_zero a \<longleftrightarrow> a = Fin 0 \<or> a = NegZero"

definition is_inf :: "fl \<Rightarrow> bool" where
  "is_inf a \<longleftrightarrow> a = PInf \<or> a = NInf"

definition is_finite :: "fl \<Rightarrow> bool" where
  "is_finite a \<longleftrightarrow> (case a of Fin x \<Rightarrow> True | NegZero \<Rightarrow> True | _ \<Rightarrow> False)"

definition signbit :: "fl \<Rightarrow> bool" where
  "signbit a = (case a of Fin x \<Rightarrow> x < 0 | NegZero \<Rightarrow> True | NInf \<Rightarrow> True | _ \<Rightarrow> False)"

text \<open>An f-string message: literal text interleaved with formatted numbers.\<close>

datatype msgpart = Text string | Num real

datatype pyerror =
    ValueError "msgpart list"
  | SystemExit
  | ArithmeticError
  | NameError string
  | FileNotFoundError

text \<open>Where a stage of \<open>rapidtide_main\<close> leaves control: an exception, the early
  \<open>return\<close>, or the next statement.\<close>

datatype 'a stage = Raised pyerror | Returned | Next 'a

text \<open>
  A similarity computation: the cross-correlation of an externally supplied regressor with
  the global mean (\<open>tide_corr.arbcorr\<close>, line 1116), or one per-voxel similarity pass
  (\<open>correlationpass\<close>) with the two lag point counts it is handed.
\<close>

datatype simevent = RegressorSync | VoxelSimilarity int int

text \<open>Python's \<open>int(x)\<close> on a float truncates towards zero.\<close>

definition py_int :: "real \<Rightarrow> int" where
  "py_int x = (if 0 \<le> x then \<lfloor>x\<rfloor> else \<lceil>x\<rceil>)"


section \<open>Run options and the inputs the core receives from its collaborators\<close>

text \<open>The keys of \<open>optiondict\<close> that the modelled statements read.\<close>

record optiondict =
  lagmin :: real
  lagmax :: real
  oversampfactor :: int
  realtr :: real
  regressorfile :: "string option"
  fakerun :: bool
  echocancel :: bool
  passes :: int
  maxpasses :: int
  convergencethresh :: "real option"
  globalpreselect :: bool

text \<open>
  What the machine, file reading and preparation hand to the modelled statements: the
  rounding of double arithmetic, the file kind, the repetition time found in the header and
  whether the reader hands it over as a numpy scalar (whose division by zero gives an
  infinity or a NaN with a warning, where a Python float raises), the result of
  \<open>startendcheck\<close>, the outcome of the preparation between the lag bound check and the
  synchronisation of the regressor (mask checks, confound regression: \<open>Some e\<close> when one
  of its \<open>raise\<close> or \<open>sys.exit\<close> statements is reached), the non-oversampled probe
  regressor, and the outcome of everything after the pass loop.
\<close>

record runenv =
  fround :: "real \<Rightarrow> real"
  textio :: bool
  fileiscifti :: bool
  headertr :: real
  headertr_numpy :: bool
  validstart :: int
  validend :: int
  prepfailure :: "pyerror option"
  resampnonosref_y :: "real list"
  postfailure :: "pyerror option"


section \<open>Start-up checks (rapidtide.py, lines 452-492 and 1496-1528)\<close>

text \<open>Lines 452-466: the repetition time.\<close>

definition get_fmritr :: "optiondict \<Rightarrow> runenv \<Rightarrow> pyerror + real" where
  "get_fmritr od env =
     (if \<not> fileiscifti env \<and> textio env \<and> realtr od \<le> 0 then
        Inl (ValueError
          [Text ''for text file data input, you must use the -t option to set the timestep''])
      else if realtr od > 0 then Inr (realtr od)
      else if fileiscifti env then Inr (72 / 100)
      else Inr (headertr env))"

text \<open>
  The repetition time is a numpy scalar when it comes from the header of a NIFTI file; the
  constant of line 453 and the option \<open>realtr\<close> are Python floats.
\<close>

definition fmritr_numpy :: "optiondict \<Rightarrow> runenv \<Rightarrow> bool" where
  "fmritr_numpy od env \<longleftrightarrow>
     \<not> fileiscifti env \<and> \<not> textio env \<and> realtr od \<le> 0 \<and> headertr_numpy env"

text \<open>Lines 469-470: a negative oversampling factor asks for the automatic one.\<close>

definition adjust_oversampfactor :: "(real \<Rightarrow> real) \<Rightarrow> int \<Rightarrow> real \<Rightarrow> int" where
  "adjust_oversampfactor rnd osf fmritr =
     (if osf < 0 then py_int (max (of_int \<lceil>rnd (fmritr / (1 / 2))\<rceil>) 1) else osf)"

text \<open>
  Line 473: \<open>oversamptr = fmritr / optiondict["oversampfactor"]\<close>. Dividing a Python float
  by zero raises; dividing a numpy scalar by zero gives an infinity, or a NaN for 0 / 0.
\<close>

definition get_oversamptr :: "(real \<Rightarrow> real) \<Rightarrow> bool \<Rightarrow> real \<Rightarrow> int \<Rightarrow> pyerror + fl" where
  "get_oversamptr rnd numpy fmritr osf =
     (if osf \<noteq> 0 then Inr (Fin (rnd (fmritr / of_int osf)))
      else if \<not> numpy then Inl ArithmeticError
      else Inr (if fmritr = 0 then NaN else if 0 < fmritr then PInf else NInf))"

text \<open>Lines 484-492: the lag bounds against half of the valid duration.\<close>

definition halfduration :: "(real \<Rightarrow> real) \<Rightarrow> int \<Rightarrow> int \<Rightarrow> real \<Rightarrow> real" where
  "halfduration rnd vstart vend fmritr = rnd (rnd (of_int (vend - vstart + 1) * fmritr) / 2)"

definition check_lagbounds ::
  "(real \<Rightarrow> real) \<Rightarrow> optiondict \<Rightarrow> int \<Rightarrow> int \<Rightarrow> real \<Rightarrow> pyerror + unit" where
  "check_lagbounds rnd od vstart vend fmritr =
     (if \<bar>lagmin od\<bar> > halfduration rnd vstart vend fmritr then
        Inl (ValueError [Text ''magnitude of lagmin exceeds '',
                         Num (halfduration rnd vstart vend fmritr), Text '' - invalid''])
      else if \<bar>lagmax od\<bar> > halfduration rnd vstart vend fmritr then
        Inl (ValueError [Text ''magnitude of lagmax exceeds '',
                         Num (halfduration rnd vstart vend fmritr), Text '' - invalid''])
      else Inr ())"

text \<open>
  Lines 1520-1521: the number of lag points kept on each side of the origin. The division
  and the addition or subtraction of 0.5 each round.
\<close>

definition lagmininpts :: "(real \<Rightarrow> real) \<Rightarrow> optiondict \<Rightarrow> real \<Rightarrow> int" where
  "lagmininpts rnd od corrtr = py_int (rnd (rnd (- lagmin od / corrtr) - 1 / 2))"

definition lagmaxinpts :: "(real \<Rightarrow> real) \<Rightarrow> optiondict \<Rightarrow> real \<Rightarrow> int" where
  "lagmaxinpts rnd od corrtr = py_int (rnd (rnd (lagmax od / corrtr) + 1 / 2))"

text \<open>The ValueError of lines 1524-1526.\<close>

definition range_too_narrow :: pyerror where
  "range_too_narrow =
     ValueError [Text (''correlation search range is too narrow - decrease lagmin, '' @
                       ''increase lagmax, or increase oversample factor'')]"

text \<open>
  Lines 1496 and 1520-1526, with \<open>corrtr = oversamptr\<close>. A zero or NaN \<open>corrtr\<close> makes
  the two quotients fail in Python (a division error, or an infinite or NaN value that
  \<open>int\<close> refuses); the model gives that its own error. An infinite \<open>corrtr\<close> makes
  both quotients zero, so that \<open>int(-0.5)\<close> and \<open>int(0.5)\<close> leave no lag point at all.
\<close>

definition lag_window :: "(real \<Rightarrow> real) \<Rightarrow> optiondict \<Rightarrow> fl \<Rightarrow> pyerror + int \<times> int" where
  "lag_window rnd od corrtr =
     (case corrtr of
        Fin c \<Rightarrow>
          if c = 0 then Inl ArithmeticError
          else if lagmaxinpts rnd od c + lagmininpts rnd od c < 3 then Inl range_too_narrow
          else Inr (lagmininpts rnd od c, lagmaxinpts rnd od c)
      | NegZero \<Rightarrow> Inl ArithmeticError
      | NaN \<Rightarrow> Inl ArithmeticError
      | PInf \<Rightarrow> Inl range_too_narrow
      | NInf \<Rightarrow> Inl range_too_narrow)"

text \<open>The retained part of a similarity function whose zero lag is at index \<open>corrorigin\<close>
  (lines 1557-1558).\<close>

definition retained_window :: "int \<Rightarrow> int \<times> int \<Rightarrow> int \<times> int" where
  "retained_window corrorigin w = (corrorigin - fst w, corrorigin + snd w)"

text \<open>
  Lines 1037-1041 and 1115-1118: with a regressor file, \<open>useglobalref\<close> is off and the
  regressor is cross-correlated with the global mean.
\<close>

definition regressor_sync :: "optiondict \<Rightarrow> simevent list" where
  "regressor_sync od = (case regressorfile od of None \<Rightarrow> [] | Some f \<Rightarrow> [RegressorSync])"

text \<open>
  The statements of \<open>rapidtide_main\<close> before the first per-voxel similarity computation,
  in source order: repetition time, oversampling, lag bound check, preparation, the
  synchronisation of an external regressor, the \<open>fakerun\<close> return (line 1319), the lag
  window. The result is the list of similarity computations performed, and where control
  goes. Between the \<open>fakerun\<close> return and the lag window the correlator is only set up
  (lines 1501-1518: a reference of zeros, the origin and the lag axis are read).
\<close>

definition rapidtide_startup :: "optiondict \<Rightarrow> runenv \<Rightarrow> simevent list \<times> (int \<times> int) stage" where
  "rapidtide_startup od env =
     (case get_fmritr od env of
        Inl e \<Rightarrow> ([], Raised e)
      | Inr fmritr \<Rightarrow>
          (case get_oversamptr (fround env) (fmritr_numpy od env) fmritr
                  (adjust_oversampfactor (fround env) (oversampfactor od) fmritr) of
             Inl e \<Rightarrow> ([], Raised e)
           | Inr oversamptr \<Rightarrow>
               (case check_lagbounds (fround env) od (validstart env) (validend env) fmritr of
                  Inl e \<Rightarrow> ([], Raised e)
                | Inr _ \<Rightarrow>
                    (case prepfailure env of
                       Some e \<Rightarrow> ([], Raised e)
                     | None \<Rightarrow>
                         if fakerun od then (regressor_sync od, Returned)
                         else (case lag_window (fround env) od oversamptr of
                                 Inl e \<Rightarrow> (regressor_sync od, Raised e)
                               | Inr w \<Rightarrow> (regressor_sync od, Next w))))))"


section \<open>The pass loop (rapidtide.py, lines 1817-2970)\<close>

text \<open>
  Modelled from the spec: \<open>mse\<close> is imported from \<open>rapidtide.tests.utils\<close>, which is not
  among the sources. The spec calls it the "mean squared error between the new candidate
  (resampled to the native time grid) and the previous pass's candidate". Both arguments
  have one entry per valid time point in the workflow.
\<close>

definition mse :: "real list \<Rightarrow> real list \<Rightarrow> real" where
  "mse vec1 vec2 = (\<Sum>(a, b) \<leftarrow> zip vec1 vec2. (a - b)\<^sup>2) / of_nat (length vec1)"

text \<open>
  What the per-voxel machinery of one pass delivers to the control flow: the size of the
  refine mask (\<open>makerefinemask\<close>), the number of voxels the regressor combination
  processed (\<open>dorefine\<close>) and the normalized, filtered candidate regressor at the native
  time grid.
\<close>

record passinput =
  numinmask :: nat
  voxelsprocessed_rr :: nat
  normoutputdata :: "real list"

record loopstate =
  stoprefining :: bool
  refinestopreason :: string
  previousnormoutputdata :: "real list"
  regressormse :: "(int \<times> real) list"
  thepass :: int
  simcalls :: "(int \<times> int) list"
  passes_run :: "int list"

text \<open>Lines 1821-1824.\<close>

definition numpasses :: "optiondict \<Rightarrow> int" where
  "numpasses od =
     (case convergencethresh od of
        None \<Rightarrow> passes od
      | Some t \<Rightarrow> max (passes od) (maxpasses od))"

text \<open>Lines 2595-2599: whether this pass refines the regressor.\<close>

definition refine_wanted :: "optiondict \<Rightarrow> int \<Rightarrow> bool" where
  "refine_wanted od p \<longleftrightarrow>
     p < passes od \<or> convergencethresh od \<noteq> None \<or> globalpreselect od"

text \<open>Lines 2799-2818: the convergence check, on the state of the loop.\<close>

definition check_convergence :: "optiondict \<Rightarrow> int \<Rightarrow> real list \<Rightarrow> loopstate \<Rightarrow> loopstate" where
  "check_convergence od p newdata st =
     (let themse = mse newdata (previousnormoutputdata st);
          st1 = st\<lparr>regressormse := regressormse st @ [(p, themse)]\<rparr>
      in case convergencethresh od of
           Some t \<Rightarrow>
             if p \<ge> maxpasses od then
               st1\<lparr>stoprefining := True, refinestopreason := ''maxpassesreached''\<rparr>
             else if themse < t then
               st1\<lparr>stoprefining := True, refinestopreason := ''convergence''\<rparr>
             else st1\<lparr>stoprefining := False\<rparr>
         | None \<Rightarrow>
             if p \<ge> passes od then
               st1\<lparr>stoprefining := True, refinestopreason := ''passesreached''\<rparr>
             else st1\<lparr>stoprefining := False\<rparr>)"

text \<open>
  One pass. The similarity computation of the pass is handed the lag window \<open>w\<close>
  (lines 2254-2255 and 2278-2279); the refinement step follows lines 2595-2906. An exit
  comes with the state in which it happens.
\<close>

definition passbody ::
  "optiondict \<Rightarrow> int \<times> int \<Rightarrow> passinput \<Rightarrow> int \<Rightarrow> loopstate
     \<Rightarrow> pyerror \<times> loopstate + loopstate" where
  "passbody od w inp p st =
     (let st1 = st\<lparr>thepass := p, simcalls := simcalls st @ [w],
                   passes_run := passes_run st @ [p]\<rparr>
      in if refine_wanted od p then
           if numinmask inp = 0 then Inl (SystemExit, st1)
           else if voxelsprocessed_rr inp > 0 then
             Inr ((check_convergence od p (normoutputdata inp) st1)
                    \<lparr>previousnormoutputdata := normoutputdata inp\<rparr>)
           else Inr (st1\<lparr>stoprefining := True, refinestopreason := ''emptymask''\<rparr>)
         else Inr st1)"

text \<open>Lines 1833-1835: \<open>for thepass in range(1, numpasses + 1): if stoprefining: break\<close>.\<close>

fun passloop ::
  "optiondict \<Rightarrow> int \<times> int \<Rightarrow> (int \<Rightarrow> passinput) \<Rightarrow> int list \<Rightarrow> loopstate
     \<Rightarrow> pyerror \<times> loopstate + loopstate" where
  "passloop od w inp [] st = Inr st"
| "passloop od w inp (p # ps) st =
     (if stoprefining st then Inr (st\<lparr>thepass := p\<rparr>)
      else (case passbody od w (inp p) p st of
              Inl e \<Rightarrow> Inl e
            | Inr st' \<Rightarrow> passloop od w inp ps st'))"

text \<open>Lines 1396 and 1819-1820, and the echo cancellation of lines 1739-1815, which runs
  one similarity pass with the same window before the loop.\<close>

definition initial_loopstate :: "optiondict \<Rightarrow> int \<times> int \<Rightarrow> real list \<Rightarrow> loopstate" where
  "initial_loopstate od w ref =
     \<lparr>stoprefining = False, refinestopreason = ''passesreached'',
      previousnormoutputdata = ref, regressormse = [], thepass = 0,
      simcalls = (if echocancel od then [w] else []), passes_run = []\<rparr>"

definition run_passes ::
  "optiondict \<Rightarrow> int \<times> int \<Rightarrow> (int \<Rightarrow> passinput) \<Rightarrow> real list
     \<Rightarrow> pyerror \<times> loopstate + loopstate" where
  "run_passes od w inp ref = passloop od w inp [1..numpasses od] (initial_loopstate od w ref)"


section \<open>Lifecycle markers and the whole run (lines 256-262 and 4151-4155)\<close>

record markers =
  isrunning_file :: bool
  done_file :: bool

datatype runresult = Failed pyerror | ReturnedEarly | Completed loopstate

text \<open>The per-voxel similarity passes a loop state records.\<close>

definition voxel_events :: "loopstate \<Rightarrow> simevent list" where
  "voxel_events st = map (\<lambda>(a, b). VoxelSimilarity a b) (simcalls st)"

text \<open>
  The run as the sequence of marker states it goes through, the similarity computations it
  performs, and its result. The first marker state is the one the run finds; then
  \<open>_DONE.txt\<close> is unlinked (missing allowed) and \<open>_ISRUNNING.txt\<close> touched. Nothing
  between line 262 and line 4152 names either file. Only a run that reaches the last two
  statements unlinks the canary and touches the completion file.
\<close>

definition rapidtide_main ::
  "optiondict \<Rightarrow> runenv \<Rightarrow> (int \<Rightarrow> passinput) \<Rightarrow> markers
     \<Rightarrow> markers list \<times> simevent list \<times> runresult" where
  "rapidtide_main od env inp m0 =
     (let m1 = m0\<lparr>done_file := False\<rparr>;
          m2 = m1\<lparr>isrunning_file := True\<rparr>
      in case rapidtide_startup od env of
           (ev, Raised e) \<Rightarrow> ([m0, m1, m2], ev, Failed e)
         | (ev, Returned) \<Rightarrow> ([m0, m1, m2], ev, ReturnedEarly)
         | (ev, Next w) \<Rightarrow>
             (case run_passes od w inp (resampnonosref_y env) of
                Inl (e, st) \<Rightarrow> ([m0, m1, m2], ev @ voxel_events st, Failed e)
              | Inr st \<Rightarrow>
                  (case postfailure env of
                     Some e \<Rightarrow> ([m0, m1, m2], ev @ voxel_events st, Failed e)
                   | None \<Rightarrow>
                       (let m3 = m2\<lparr>isrunning_file := False\<rparr>;
                            m4 = m3\<lparr>done_file := True\<rparr>
                        in ([m0, m1, m2, m3, m4], ev @ voxel_events st, Completed st)))))"


section \<open>Despeckling (rapidtide.py, lines 2427-2500)\<close>

text \<open>Line 2448: voxels the loop is happy with get this initial lag.\<close>

definition nodespeckle :: real where
  "nodespeckle = - 1000000"

text \<open>Lines 2439-2440: \<open>outmaparray *= 0.0; outmaparray[validvoxels] = lagtimes[:]\<close>.\<close>

definition populate :: "nat \<Rightarrow> nat list \<Rightarrow> real list \<Rightarrow> real list" where
  "populate numspatiallocs validvoxels vals =
     fold (\<lambda>(v, x) arr. arr[v := x]) (zip validvoxels vals) (replicate numspatiallocs 0)"

text \<open>
  Lines 2441-2449. The argument \<open>medfilter\<close> stands for scipy's
  \<open>median_filter(outmaparray.reshape(nativespaceshape), 3).reshape(numspatiallocs)\<close>.
\<close>

definition despeckle_initlags ::
  "(real list \<Rightarrow> real list) \<Rightarrow> nat \<Rightarrow> nat list \<Rightarrow> real \<Rightarrow> real list \<Rightarrow> real list" where
  "despeckle_initlags medfilter numspatiallocs validvoxels despeckle_thresh lags =
     (let outmaparray = populate numspatiallocs validvoxels lags;
          medianlags = medfilter outmaparray
      in map (\<lambda>v. if \<bar>outmaparray ! v - medianlags ! v\<bar> > despeckle_thresh
                   then medianlags ! v else nodespeckle) validvoxels)"

text \<open>
  Modelled from the spec: \<open>fitcorr\<close> of \<open>rapidtide.simfuncfit\<close> is not among the
  sources. With \<open>despeckling=True\<close> the spec has it "re-run PeakFitter for suspects only,
  seeding the search with the local median instead of the global maximum". The fitter is
  the argument \<open>refit\<close>, from the voxel's index and its seed to its new lag; the result
  is the number of voxels fitted and the new lag map.
\<close>

definition fitcorr_despeckling ::
  "(nat \<Rightarrow> real \<Rightarrow> real) \<Rightarrow> real list \<Rightarrow> real list \<Rightarrow> nat \<times> real list" where
  "fitcorr_despeckling refit initiallags lags =
     (length (filter (\<lambda>l. l \<noteq> nodespeckle) initiallags),
      map (\<lambda>i. if initiallags ! i \<noteq> nodespeckle then refit i (initiallags ! i) else lags ! i)
        [0..<length lags])"

record despeckle_state =
  lagtimes :: "real list"
  lastnumdespeckled :: nat
  voxelsprocessed_fc_ds :: nat
  despecklemasksize :: "nat list"

text \<open>Lines 2434-2436.\<close>

definition despeckle_start :: "real list \<Rightarrow> despeckle_state" where
  "despeckle_start lags =
     \<lparr>lagtimes = lags, lastnumdespeckled = 1000000, voxelsprocessed_fc_ds = 0,
      despecklemasksize = []\<rparr>"

text \<open>
  Lines 2438-2491, one sub-pass: \<open>None\<close> when the sub-pass sets \<open>despecklingdone\<close>,
  the state after the refit otherwise. The list \<open>despecklemasksize\<close> collects the
  entries \<open>despecklemasksize_pass..._d...\<close> that line 2482 writes.
\<close>

definition numdespeckled :: "real list \<Rightarrow> nat" where
  "numdespeckled initlags = length (filter (\<lambda>l. l \<noteq> nodespeckle) initlags)"

definition despeckle_subpass ::
  "(real list \<Rightarrow> real list) \<Rightarrow> (nat \<Rightarrow> real \<Rightarrow> real) \<Rightarrow> nat \<Rightarrow> nat list \<Rightarrow> real
     \<Rightarrow> despeckle_state \<Rightarrow> despeckle_state option" where
  "despeckle_subpass medfilter refit numspatiallocs validvoxels despeckle_thresh st =
     (let initlags = despeckle_initlags medfilter numspatiallocs validvoxels despeckle_thresh
                       (lagtimes st)
      in if length initlags > 0 then
           if lastnumdespeckled st > numdespeckled initlags \<and> numdespeckled initlags > 0 then
             (let (voxelsprocessed_thispass, newlags) =
                    fitcorr_despeckling refit initlags (lagtimes st)
              in Some \<lparr>lagtimes = newlags,
                       lastnumdespeckled = numdespeckled initlags,
                       voxelsprocessed_fc_ds = voxelsprocessed_fc_ds st + voxelsprocessed_thispass,
                       despecklemasksize = despecklemasksize st @ [voxelsprocessed_thispass]\<rparr>)
           else None
         else None)"

text \<open>Lines 2437 and 2492-2494: \<open>for despecklepass in range(despeckle_passes)\<close>, left by
  \<open>break\<close> once \<open>despecklingdone\<close> is set.\<close>

fun despeckle_loop ::
  "(real list \<Rightarrow> real list) \<Rightarrow> (nat \<Rightarrow> real \<Rightarrow> real) \<Rightarrow> nat \<Rightarrow> nat list \<Rightarrow> real
     \<Rightarrow> nat \<Rightarrow> despeckle_state \<Rightarrow> despeckle_state" where
  "despeckle_loop medfilter refit numspatiallocs validvoxels despeckle_thresh 0 st = st"
| "despeckle_loop medfilter refit numspatiallocs validvoxels despeckle_thresh (Suc k) st =
     (case despeckle_subpass medfilter refit numspatiallocs validvoxels despeckle_thresh st of
        None \<Rightarrow> st
      | Some st' \<Rightarrow>
          despeckle_loop medfilter refit numspatiallocs validvoxels despeckle_thresh k st')"

text \<open>Line 2428: the loop runs only for a positive \<open>despeckle_passes\<close>.\<close>

definition despeckle ::
  "(real list \<Rightarrow> real list) \<Rightarrow> (nat \<Rightarrow> real \<Rightarrow> real) \<Rightarrow> nat \<Rightarrow> nat list \<Rightarrow> real
     \<Rightarrow> int \<Rightarrow> real list \<Rightarrow> despeckle_state" where
  "despeckle medfilter refit numspatiallocs validvoxels despeckle_thresh despeckle_passes lags =
     (if despeckle_passes > 0 then
        despeckle_loop medfilter refit numspatiallocs validvoxels despeckle_thresh
          (nat despeckle_passes) (despeckle_start lags)
      else despeckle_start lags)"

text \<open>
  scipy's \<open>median_filter\<close> with a window of 3 along each axis of a volume of shape
  \<open>(nx, ny, nz)\<close> stored in C order, in its default boundary mode \<open>reflect\<close>, where the
  neighbour beyond an edge is the edge voxel itself. It instantiates \<open>medfilter\<close> on
  concrete volumes.
\<close>

definition reflect_index :: "nat \<Rightarrow> int \<Rightarrow> nat" where
  "reflect_index n i = (if i < 0 then 0 else if i \<ge> int n then n - 1 else nat i)"

definition median_filter3 :: "nat \<times> nat \<times> nat \<Rightarrow> real list \<Rightarrow> real list" where
  "median_filter3 shape arr =
     (case shape of (nx, ny, nz) \<Rightarrow>
        concat (map (\<lambda>i. concat (map (\<lambda>j. map (\<lambda>k.
          sort (concat (map (\<lambda>di. concat (map (\<lambda>dj. map (\<lambda>dk.
              arr ! ((reflect_index nx (int i + di) * ny + reflect_index ny (int j + dj)) * nz
                     + reflect_index nz (int k + dk)))
            [-1, 0, 1]) [-1, 0, 1])) [-1, 0, 1])) ! 13)
          [0..<nz]) [0..<ny])) [0..<nx]))"


section \<open>Fallback masks of the refinement step (rapidtide.py, lines 2602-2659)\<close>

text \<open>
  The masks are numpy arrays that the statements update in place, so they live in a store
  and are named by their position in it. \<open>fitmask\<close> is allocated with dtype
  \<open>uint16\<close> (line 1608); the include and exclude masks are float arrays (lines 775-798)
  that are only read.
\<close>

datatype dtype = UInt16 | UInt32 | Float32 | Float64

record ndarray =
  arr_dtype :: dtype
  arr_data :: "real list"

type_synonym store = "ndarray list"

text \<open>
  \<open>np.uint16(a)\<close> on an array: numpy's scalar type constructors convert with
  \<open>PyArray_FromAny\<close> without asking for a copy, so an array that already has the
  requested dtype is handed back as it is, the same object; any other array is converted
  into a fresh one.
\<close>

definition np_uint16 :: "store \<Rightarrow> nat \<Rightarrow> store \<times> nat" where
  "np_uint16 h r =
     (if arr_dtype (h ! r) = UInt16 then (h, r)
      else (h @ [\<lparr>arr_dtype = UInt16, arr_data = arr_data (h ! r)\<rparr>], length h))"

text \<open>\<open>a[np.where(cond(m))] = 0\<close>, in place.\<close>

definition zero_where :: "(real \<Rightarrow> bool) \<Rightarrow> real list \<Rightarrow> store \<Rightarrow> nat \<Rightarrow> store" where
  "zero_where cond m h r =
     h[r := (h ! r)\<lparr>arr_data := map (\<lambda>(x, c). if cond c then 0 else x)
                                      (zip (arr_data (h ! r)) m)\<rparr>]"

text \<open>
  Modelled from the spec: \<open>getmasksize\<close> of \<open>rapidtide.stats\<close> is not among the sources.
  The spec speaks of a mask that "selects zero units", and the statements compare the
  result with 0 to find such a mask. It counts the positive entries.
\<close>

definition getmasksize :: "real list \<Rightarrow> nat" where
  "getmasksize themask = length (filter (\<lambda>x. x > 0) themask)"

text \<open>
  Lines 2604-2613. The result is the store, the array that \<open>offsetmask\<close> names when
  \<open>gethistprops\<close> is called, and whether the warning was logged.
\<close>

definition offsetmask_block ::
  "store \<Rightarrow> nat \<Rightarrow> real list option \<Rightarrow> real list option \<Rightarrow> store \<times> nat \<times> bool" where
  "offsetmask_block h fitmask includemask excludemask =
     (let (h1, offsetmask) = np_uint16 h fitmask;
          h2 = (case includemask of
                  None \<Rightarrow> h1
                | Some m \<Rightarrow> zero_where (\<lambda>c. c = 0) m h1 offsetmask);
          h3 = (case excludemask of
                  None \<Rightarrow> h2
                | Some m \<Rightarrow> zero_where (\<lambda>c. c \<noteq> 0) m h2 offsetmask)
      in if getmasksize (arr_data (h3 ! offsetmask)) = 0 then (h3, fitmask, True)
         else (h3, offsetmask, False))"

text \<open>
  Lines 2630-2659. \<open>despeckled\<close> is \<open>internaldespeckleincludemask[validvoxels]\<close>, non-zero
  at the voxels the last despeckling sub-pass marked. The result is the store, the exclude
  mask handed to \<open>makerefinemask\<close>, and whether the warning was logged.
\<close>

definition refineexclude_block ::
  "bool \<Rightarrow> int \<Rightarrow> store \<Rightarrow> nat \<Rightarrow> real list option \<Rightarrow> real list option \<Rightarrow> real list
     \<Rightarrow> store \<times> real list option \<times> bool" where
  "refineexclude_block refinedespeckled despeckle_passes h fitmask includemask excludemask
       despeckled =
     (if refinedespeckled \<or> despeckle_passes = 0 then (h, excludemask, False)
      else
        (let this = (case excludemask of
                       None \<Rightarrow> map (\<lambda>d. if d = 0 then 0 else 1) despeckled
                     | Some e \<Rightarrow>
                         map (\<lambda>(x, d). if d \<noteq> 0 then 1 else if x > 0 then 1 else 0)
                           (zip e despeckled));
             (h1, overallmask) = np_uint16 h fitmask;
             h2 = (case includemask of
                     None \<Rightarrow> h1
                   | Some m \<Rightarrow> zero_where (\<lambda>c. c = 0) m h1 overallmask);
             h3 = zero_where (\<lambda>c. c \<noteq> 0) this h2 overallmask
         in if getmasksize (arr_data (h3 ! overallmask)) = 0 then (h3, excludemask, True)
            else (h3, Some this, False)))"


section \<open>Delay refinement (refinedelay.py and rapidtide.py, lines 3333-3397)\<close>

subsection \<open>The derivative ratio, on IEEE floats\<close>

text \<open>
  Division of the floats \<open>fl\<close> follows IEEE 754 on the special values; the quotient of two
  finite non-zero floats is the exact quotient rounded by \<open>rnd\<close>, which may overflow to an
  infinity or underflow to a zero.
\<close>

definition fl_div :: "(real \<Rightarrow> fl) \<Rightarrow> fl \<Rightarrow> fl \<Rightarrow> fl" where
  "fl_div rnd a b =
     (if a = NaN \<or> b = NaN then NaN
      else if is_inf a \<and> is_inf b then NaN
      else if is_zero a \<and> is_zero b then NaN
      else if is_inf a \<or> is_zero b then (if signbit a \<noteq> signbit b then NInf else PInf)
      else if is_zero a \<or> is_inf b then (if signbit a \<noteq> signbit b then NegZero else Fin 0)
      else (case (a, b) of (Fin x, Fin y) \<Rightarrow> rnd (x / y) | _ \<Rightarrow> NaN))"

text \<open>\<open>np.nan_to_num\<close> with its defaults: NaN becomes 0, an infinity the largest finite
  float \<open>fmax\<close> of the array's dtype with the same sign.\<close>

definition nan_to_num :: "real \<Rightarrow> fl \<Rightarrow> fl" where
  "nan_to_num fmax a =
     (case a of NaN \<Rightarrow> Fin 0 | PInf \<Rightarrow> Fin fmax | NInf \<Rightarrow> Fin (- fmax) | _ \<Rightarrow> a)"

text \<open>The largest finite float64.\<close>

definition float64_max :: real where
  "float64_max = (2 ^ 53 - 1) * 2 ^ 971"

text \<open>
  refinedelay.py, line 223, on the rows \<open>(fitcoeff[i, 0], fitcoeff[i, 1])\<close> that
  \<open>glmfrommaps\<close> has filled in.
\<close>

definition getderivratios :: "(real \<Rightarrow> fl) \<Rightarrow> real \<Rightarrow> (fl \<times> fl) list \<Rightarrow> fl list" where
  "getderivratios rnd fmax fitcoeff =
     map (\<lambda>(c0, c1). nan_to_num fmax (fl_div rnd c1 c0)) fitcoeff"

subsection \<open>Calibration and its use\<close>

text \<open>The two module globals \<open>ratiotooffsetfunc\<close> and \<open>maplimits\<close>.\<close>

record calibration =
  ratiotooffsetfunc :: "real \<Rightarrow> real"
  maplimits :: "real \<times> real"

text \<open>
  scipy's \<open>CubicSpline(x, y)\<close>: the constructor refuses abscissae that are not strictly
  increasing, fewer than two of them, and ordinates of another length. The interpolant it
  builds otherwise is the argument \<open>interp\<close>.
\<close>

definition CubicSpline ::
  "(real list \<Rightarrow> real list \<Rightarrow> real \<Rightarrow> real) \<Rightarrow> real list \<Rightarrow> real list
     \<Rightarrow> pyerror + (real \<Rightarrow> real)" where
  "CubicSpline interp x y =
     (if length x \<noteq> length y then
        Inl (ValueError [Text ''The length of `y` along `axis`=0 doesn't match the length of `x`''])
      else if length x < 2 then
        Inl (ValueError [Text ''`x` must contain at least 2 elements.''])
      else if \<not> sorted_wrt (<) x then
        Inl (ValueError [Text ''`x` must be strictly increasing sequence.''])
      else Inr (interp x y))"

text \<open>
  refinedelay.py, lines 149-150, the end of \<open>trainratiotooffset\<close>: the arguments are the
  smoothed ratios and the delays of the synthetic training data after trimming
  (lines 130-132). The result is the new value of the two globals.
\<close>

definition trainratiotooffset ::
  "(real list \<Rightarrow> real list \<Rightarrow> real \<Rightarrow> real) \<Rightarrow> real list \<Rightarrow> real list
     \<Rightarrow> pyerror + calibration" where
  "trainratiotooffset interp smoothglmderivratios traindelays =
     (case CubicSpline interp (rev smoothglmderivratios) (rev traindelays) of
        Inl e \<Rightarrow> Inl e
      | Inr f \<Rightarrow>
          Inr \<lparr>ratiotooffsetfunc = f,
               maplimits = (hd (rev smoothglmderivratios), last (rev smoothglmderivratios))\<rparr>)"

text \<open>refinedelay.py, lines 153-160. Before any training the globals are unbound.\<close>

definition ratiotodelay :: "calibration option \<Rightarrow> real \<Rightarrow> pyerror + real" where
  "ratiotodelay globals theratio =
     (case globals of
        None \<Rightarrow> Inl (NameError ''maplimits'')
      | Some cal \<Rightarrow>
          if theratio < fst (maplimits cal) then
            Inr (ratiotooffsetfunc cal (fst (maplimits cal)))
          else if theratio > snd (maplimits cal) then
            Inr (ratiotooffsetfunc cal (snd (maplimits cal)))
          else Inr (ratiotooffsetfunc cal theratio))"

text \<open>
  Modelled from the spec: \<open>populatemap\<close> and \<open>makedestarray\<close> of \<open>rapidtide.io\<close> are
  not among the sources. The spec has the "raw ratio map" filtered spatially: the map of all
  voxels that holds the ratio of each valid voxel at the voxel's place and zero elsewhere,
  built as lines 2439-2440 of the workflow build the lag map.
\<close>

definition populatemap :: "real list \<Rightarrow> nat \<Rightarrow> nat list \<Rightarrow> real list" where
  "populatemap themap internalspaceshape validvoxels =
     populate internalspaceshape validvoxels themap"

text \<open>
  refinedelay.py, lines 242-268 and 313. \<open>themad\<close> stands for statsmodels' \<open>mad\<close> and
  \<open>medfilter\<close> for scipy's
  \<open>median_filter(mappedglmderivratio.reshape(nativespaceshape), size=(3, 3, 3))\<close>
  flattened again.
\<close>

definition filterderivratios ::
  "(real list \<Rightarrow> real) \<Rightarrow> (real list \<Rightarrow> real list) \<Rightarrow> real list \<Rightarrow> nat \<Rightarrow> nat list \<Rightarrow> real
     \<Rightarrow> bool \<Rightarrow> bool \<Rightarrow> real list \<times> real list" where
  "filterderivratios themad medfilter glmderivratio numspatiallocs validvoxels patchthresh
       is_cifti is_text =
     (let mad_value = themad glmderivratio;
          mappedglmderivratio = populatemap glmderivratio numspatiallocs validvoxels
      in if is_text \<or> is_cifti then (glmderivratio, glmderivratio)
         else
           (let medfilt = map (\<lambda>v. medfilter mappedglmderivratio ! v) validvoxels;
                filteredarray =
                  map (\<lambda>(r, m). if \<bar>r - m\<bar> > patchthresh * mad_value then m else r)
                    (zip glmderivratio medfilt)
            in (medfilt, filteredarray)))"

text \<open>The first error of a list of results, or all the values.\<close>

fun collect :: "('e + 'a) list \<Rightarrow> 'e + 'a list" where
  "collect [] = Inr []"
| "collect (Inl e # rs) = Inl e"
| "collect (Inr x # rs) = (case collect rs of Inl e \<Rightarrow> Inl e | Inr xs \<Rightarrow> Inr (x # xs))"

text \<open>
  rapidtide.py, lines 3360-3397: the ratios are patched, the calibration is trained, every
  patched ratio is mapped to a delay offset, and the offsets are added to the lags. The
  result is the pair \<open>(delayoffset, lagtimescorrected)\<close>.
\<close>

definition refinedelay ::
  "(real list \<Rightarrow> real) \<Rightarrow> (real list \<Rightarrow> real list) \<Rightarrow> (real list \<Rightarrow> real list \<Rightarrow> real \<Rightarrow> real)
     \<Rightarrow> real list \<Rightarrow> nat \<Rightarrow> nat list \<Rightarrow> real \<Rightarrow> bool \<Rightarrow> bool \<Rightarrow> real list \<Rightarrow> real list
     \<Rightarrow> real list \<Rightarrow> pyerror + real list \<times> real list" where
  "refinedelay themad medfilter interp glmderivratios numspatiallocs validvoxels
       delaypatchthresh is_cifti is_text smoothglmderivratios traindelays lags =
     (let (medfiltglmderivratios, filteredglmderivratios) =
            filterderivratios themad medfilter glmderivratios numspatiallocs validvoxels
              delaypatchthresh is_cifti is_text
      in case trainratiotooffset interp smoothglmderivratios traindelays of
           Inl e \<Rightarrow> Inl e
         | Inr cal \<Rightarrow>
             (case collect (map (ratiotodelay (Some cal)) filteredglmderivratios) of
                Inl e \<Rightarrow> Inl e
              | Inr delayoffset \<Rightarrow>
                  Inr (delayoffset, map (\<lambda>(l, d). l + d) (zip lags delayoffset))))"

text \<open>
  numpy's \<open>median\<close> and statsmodels' \<open>mad\<close> (the median absolute deviation from the
  median, divided by the normalisation constant \<open>c\<close>), to instantiate \<open>themad\<close> on
  concrete maps.
\<close>

definition np_median :: "real list \<Rightarrow> real" where
  "np_median xs =
     (let s = sort xs; n = length s
      in if odd n then s ! (n div 2) else (s ! (n div 2 - 1) + s ! (n div 2)) / 2)"

definition mad :: "real \<Rightarrow> real list \<Rightarrow> real" where
  "mad c xs = np_median (map (\<lambda>x. \<bar>x - np_median xs\<bar>) xs) / c"


section \<open>The stopping rule in the words of the specification\<close>

text \<open>
  The convergence metric of pass \<open>p\<close> when every pass so far has produced a candidate: the
  mean squared error between the candidate of pass \<open>p\<close> and the one of pass \<open>p - 1\<close>,
  the initial regressor standing for the candidate of pass 0.
\<close>

definition pass_metric :: "(int \<Rightarrow> passinput) \<Rightarrow> real list \<Rightarrow> int \<Rightarrow> real" where
  "pass_metric inp ref p =
     mse (normoutputdata (inp p)) (if p = 1 then ref else normoutputdata (inp (p - 1)))"

text \<open>
  The rule of the specification: with a convergence threshold, stop when the metric is below
  it or \<open>maxpasses\<close> passes are done; without one, stop when \<open>passes\<close> passes are done.
\<close>

definition spec_stop :: "optiondict \<Rightarrow> int \<Rightarrow> real \<Rightarrow> bool" where
  "spec_stop od p m \<longleftrightarrow>
     (case convergencethresh od of
        Some t \<Rightarrow> m < t \<or> maxpasses od \<le> p
      | None \<Rightarrow> passes od \<le> p)"


text \<open>
  The suspect voxels of a despeckling sub-pass as the specification words them: the valid
  voxels whose lag deviates from the spatial median of the lag map by more than the
  threshold.
\<close>

definition suspects ::
  "(real list \<Rightarrow> real list) \<Rightarrow> nat \<Rightarrow> nat list \<Rightarrow> real \<Rightarrow> real list \<Rightarrow> nat list" where
  "suspects medfilter numspatiallocs validvoxels despeckle_thresh lags =
     filter (\<lambda>v. \<bar>populate numspatiallocs validvoxels lags ! v
                    - medfilter (populate numspatiallocs validvoxels lags) ! v\<bar>
                 > despeckle_thresh) validvoxels"


text \<open>
  What the despeckling loop maintains: the sizes recorded for the refits so far decrease
  strictly, each is positive and below the initial 1000000, and none is below the last
  count.
\<close>

definition despeckle_inv :: "despeckle_state \<Rightarrow> bool" where
  "despeckle_inv st \<longleftrightarrow>
     sorted_wrt (>) (despecklemasksize st)
   \<and> (\<forall>c \<in> set (despecklemasksize st). lastnumdespeckled st \<le> c \<and> 0 < c \<and> c < 1000000)
   \<and> lastnumdespeckled st \<le> 1000000"


section \<open>A small run, for evaluation\<close>

text \<open>
  A NIFTI run of 100 time points with a repetition time of 1 s, lags searched between -30 s
  and 30 s, a convergence threshold of 0.01 and at most four passes. Every pass refines on
  five voxels; the first pass changes the regressor, the later ones reproduce it. All the
  numbers of the start-up checks of this run, and of its variants below, are small multiples
  of 1/2, which doubles hold exactly, so its rounding changes nothing.
\<close>

definition demo_options :: optiondict where
  "demo_options =
     \<lparr>lagmin = - 30, lagmax = 30, oversampfactor = 1, realtr = 0, regressorfile = None,
      fakerun = False,
      echocancel = True, passes = 3, maxpasses = 4, convergencethresh = Some (1 / 100),
      globalpreselect = False\<rparr>"

definition demo_env :: runenv where
  "demo_env =
     \<lparr>fround = (\<lambda>x. x), textio = False, fileiscifti = False, headertr = 1,
      headertr_numpy = True, validstart = 0, validend = 99,
      prepfailure = None, resampnonosref_y = [0, 1, 0, - 1], postfailure = None\<rparr>"

definition demo_pass :: "int \<Rightarrow> passinput" where
  "demo_pass p = \<lparr>numinmask = 5, voxelsprocessed_rr = 5, normoutputdata = [0, 1, 1, - 1]\<rparr>"


section \<open>Properties of the delay calibration\<close>

lemma strictly_sorted_hd_less_last:
  assumes "sorted_wrt (<) (ys :: real list)" and "2 \<le> length ys"
  shows "hd ys < last ys"
proof (cases ys)
  case Nil
  with assms show ?thesis by simp
next
  case (Cons y zs)
  with assms have "zs \<noteq> []" by auto
  then have "last zs \<in> set zs" by simp
  with Cons assms show ?thesis using \<open>zs \<noteq> []\<close> by auto
qed

lemma trainratiotooffset_Inr:
  assumes "trainratiotooffset interp s d = Inr cal"
  shows "sorted_wrt (<) (rev s) \<and> 2 \<le> length s \<and> length s = length d
         \<and> ratiotooffsetfunc cal = interp (rev s) (rev d)
         \<and> maplimits cal = (hd (rev s), last (rev s))"
  using assms
  by (auto simp: trainratiotooffset_def CubicSpline_def split: if_splits sum.splits)

text \<open>
  C4. After a training that succeeded, the trained ratio range is not empty; a ratio inside
  it is mapped by the calibration spline itself, a ratio below it to the spline's value at
  the lower limit and a ratio above it to the spline's value at the upper limit. The spline
  is therefore only ever evaluated inside the trained range.
\<close>

theorem ratiotodelay_clamps_to_trained_range:
  assumes "trainratiotooffset interp smoothglmderivratios traindelays = Inr cal"
  shows "fst (maplimits cal) < snd (maplimits cal)
       \<and> maplimits cal = (last smoothglmderivratios, hd smoothglmderivratios)
       \<and> ratiotooffsetfunc cal = interp (rev smoothglmderivratios) (rev traindelays)
       \<and> (fst (maplimits cal) \<le> r \<and> r \<le> snd (maplimits cal)
            \<longrightarrow> ratiotodelay (Some cal) r = Inr (ratiotooffsetfunc cal r))
       \<and> (r < fst (maplimits cal)
            \<longrightarrow> ratiotodelay (Some cal) r = Inr (ratiotooffsetfunc cal (fst (maplimits cal))))
       \<and> (snd (maplimits cal) < r
            \<longrightarrow> ratiotodelay (Some cal) r = Inr (ratiotooffsetfunc cal (snd (maplimits cal))))
       \<and> ratiotodelay (Some cal) r =
            Inr (ratiotooffsetfunc cal (max (fst (maplimits cal)) (min (snd (maplimits cal)) r)))"
proof -
  from trainratiotooffset_Inr [OF assms]
  have s: "sorted_wrt (<) (rev smoothglmderivratios)" and l: "2 \<le> length smoothglmderivratios"
    and f: "ratiotooffsetfunc cal = interp (rev smoothglmderivratios) (rev traindelays)"
    and m: "maplimits cal = (hd (rev smoothglmderivratios), last (rev smoothglmderivratios))"
    by auto
  from l have ne: "smoothglmderivratios \<noteq> []" by auto
  have lt: "hd (rev smoothglmderivratios) < last (rev smoothglmderivratios)"
    using strictly_sorted_hd_less_last [OF s] l by simp
  from ne have m': "maplimits cal = (last smoothglmderivratios, hd smoothglmderivratios)"
    using m by (simp add: hd_rev last_rev)
  show ?thesis
    using lt m m' f by (auto simp: ratiotodelay_def)
qed

theorem ratiotodelay_clamps_to_trained_range_witness:
  "trainratiotooffset (\<lambda>x y t. 2 * t) [3, 1] [-1, 1]
     = Inr \<lparr>ratiotooffsetfunc = (\<lambda>t. 2 * t), maplimits = (1, 3)\<rparr>
   \<and> ratiotodelay (Some \<lparr>ratiotooffsetfunc = (\<lambda>t. 2 * t), maplimits = (1, 3)\<rparr>) 7 = Inr 6"
proof -
  have h: "trainratiotooffset (\<lambda>x y t. 2 * t) [3, 1] [-1, 1]
     = Inr \<lparr>ratiotooffsetfunc = (\<lambda>t. 2 * t), maplimits = (1, 3)\<rparr>"
    by (simp add: trainratiotooffset_def CubicSpline_def)
  show ?thesis
    using h ratiotodelay_clamps_to_trained_range [OF h, of 7] by simp
qed

section \<open>Properties of the derivative ratio\<close>

lemma nan_to_num_finite: "is_finite (nan_to_num fmax a)"
  by (cases a) (simp_all add: nan_to_num_def is_finite_def)

lemma fl_div_zero_zero: "is_zero c0 \<Longrightarrow> is_zero c1 \<Longrightarrow> fl_div rnd c1 c0 = NaN"
  by (auto simp: fl_div_def is_zero_def is_inf_def)

lemma fl_div_NaN: "c0 = NaN \<or> c1 = NaN \<Longrightarrow> fl_div rnd c1 c0 = NaN"
  by (auto simp: fl_div_def)

lemma fl_div_by_zero:
  "is_zero c0 \<Longrightarrow> \<not> is_zero c1 \<Longrightarrow> c1 \<noteq> NaN \<Longrightarrow>
     fl_div rnd c1 c0 = (if signbit c1 \<noteq> signbit c0 then NInf else PInf)"
  by (auto simp: fl_div_def is_zero_def is_inf_def)

text \<open>
  C10, as amended. The ratio of every voxel is \<open>nan_to_num\<close> of the quotient
  \<open>fitcoeff[i, 1] / fitcoeff[i, 0]\<close> and is always a finite float. A voxel whose two
  coefficients are both zero, or one of whose coefficients is NaN, gets the ratio 0. A voxel
  whose base coefficient is zero while its derivative coefficient is not gets an infinite
  quotient, which \<open>nan_to_num\<close> turns into the largest finite float with the sign of the
  quotient, not into 0.
\<close>

theorem getderivratios_zero_base:
  assumes "i < length fitcoeff" and "fitcoeff ! i = (c0, c1)"
  shows "is_finite (getderivratios rnd fmax fitcoeff ! i)
       \<and> (is_zero c0 \<and> is_zero c1 \<longrightarrow> getderivratios rnd fmax fitcoeff ! i = Fin 0)
       \<and> (c0 = NaN \<or> c1 = NaN \<longrightarrow> getderivratios rnd fmax fitcoeff ! i = Fin 0)
       \<and> (is_zero c0 \<and> \<not> is_zero c1 \<and> c1 \<noteq> NaN \<longrightarrow>
            getderivratios rnd fmax fitcoeff ! i =
              Fin (if signbit c1 \<noteq> signbit c0 then - fmax else fmax))"
proof -
  have e: "getderivratios rnd fmax fitcoeff ! i = nan_to_num fmax (fl_div rnd c1 c0)"
    using assms by (simp add: getderivratios_def)
  have 1: "is_finite (getderivratios rnd fmax fitcoeff ! i)"
    unfolding e by (rule nan_to_num_finite)
  have 2: "is_zero c0 \<and> is_zero c1 \<longrightarrow> getderivratios rnd fmax fitcoeff ! i = Fin 0"
    unfolding e by (simp add: fl_div_zero_zero nan_to_num_def)
  have 3: "c0 = NaN \<or> c1 = NaN \<longrightarrow> getderivratios rnd fmax fitcoeff ! i = Fin 0"
    unfolding e using fl_div_NaN [of c0 c1 rnd] by (auto simp: nan_to_num_def)
  have 4: "is_zero c0 \<and> \<not> is_zero c1 \<and> c1 \<noteq> NaN \<longrightarrow>
            getderivratios rnd fmax fitcoeff ! i =
              Fin (if signbit c1 \<noteq> signbit c0 then - fmax else fmax)"
    unfolding e by (simp add: fl_div_by_zero nan_to_num_def)
  from 1 2 3 4 show ?thesis by blast
qed

theorem getderivratios_zero_base_witness:
  "getderivratios Fin float64_max [(Fin 0, Fin 0), (NegZero, Fin 1)] ! 1 = Fin (- float64_max)
   \<and> getderivratios Fin float64_max [(Fin 0, Fin 0), (NegZero, Fin 1)] ! 0 = Fin 0"
  using getderivratios_zero_base [of 1 "[(Fin 0, Fin 0), (NegZero, Fin 1)]" NegZero "Fin 1" Fin float64_max]
    getderivratios_zero_base [of 0 "[(Fin 0, Fin 0), (NegZero, Fin 1)]" "Fin 0" "Fin 0" Fin float64_max]
  by (simp add: is_zero_def signbit_def)

lemma float64_max_pos: "0 < float64_max"
  by (simp add: float64_max_def)

text \<open>
  C10 as stated fails: a zero base coefficient with derivative coefficient 1 gives the
  largest finite float64, not 0.
\<close>

theorem getderivratios_zero_base_counterexample:
  "getderivratios Fin float64_max [(Fin 0, Fin 1)] = [Fin float64_max]
   \<and> getderivratios Fin float64_max [(Fin 0, Fin 1)] \<noteq> [Fin 0]"
  using float64_max_pos
  by (simp add: getderivratios_def fl_div_def nan_to_num_def is_zero_def is_inf_def signbit_def)

section \<open>Properties of the ratio patching and the corrected lags\<close>

lemma collect_Inr:
  "collect rs = Inr xs \<Longrightarrow> length xs = length rs \<and> (\<forall>i<length rs. rs ! i = Inr (xs ! i))"
proof (induction rs arbitrary: xs)
  case Nil
  then show ?case by simp
next
  case (Cons r rs)
  show ?case
  proof (cases r)
    case (Inl e)
    with Cons.prems show ?thesis by simp
  next
    case (Inr x)
    with Cons.prems obtain ys where ys: "collect rs = Inr ys" and xs: "xs = x # ys"
      by (auto split: sum.splits)
    from Cons.IH [OF ys] have "length ys = length rs" and "\<forall>i<length rs. rs ! i = Inr (ys ! i)"
      by auto
    with Inr xs show ?thesis by (auto simp: nth_Cons')
  qed
qed

lemma filterderivratios_nth:
  assumes "length validvoxels = length glmderivratio" and "i < length glmderivratio"
  shows "snd (filterderivratios themad medfilter glmderivratio n validvoxels patchthresh
                is_cifti is_text) ! i =
         (if is_text \<or> is_cifti then glmderivratio ! i
          else if \<bar>glmderivratio ! i
                    - medfilter (populatemap glmderivratio n validvoxels) ! (validvoxels ! i)\<bar>
                  > patchthresh * themad glmderivratio
               then medfilter (populatemap glmderivratio n validvoxels) ! (validvoxels ! i)
               else glmderivratio ! i)"
  using assms by (simp add: filterderivratios_def Let_def)

lemma filterderivratios_length:
  assumes "length validvoxels = length glmderivratio"
  shows "length (snd (filterderivratios themad medfilter glmderivratio n validvoxels patchthresh
                is_cifti is_text)) = length glmderivratio"
  using assms by (simp add: filterderivratios_def Let_def)

text \<open>
  C5, as amended. With one ratio and one lag per valid voxel, a delay refinement that
  returns has trained the calibration, and for every voxel: on a NIFTI volume (neither text
  nor CIFTI input) the patched ratio is the median-filtered value where the raw ratio
  deviates from it by more than \<open>patchthresh\<close> times the MAD of the ratios, and the raw
  ratio elsewhere; on text or CIFTI input it is the raw ratio, whatever its deviation. The
  delay offset is the calibration's value for the patched ratio, and the corrected lag is
  the coarse lag plus that offset.
\<close>

theorem refinedelay_patches_and_corrects:
  assumes len: "length validvoxels = length glmderivratios"
      and lenl: "length lags = length glmderivratios"
      and run: "refinedelay themad medfilter interp glmderivratios n validvoxels patchthresh
                  is_cifti is_text smoothglmderivratios traindelays lags
                = Inr (delayoffset, lagtimescorrected)"
  shows "\<exists>cal patched.
           trainratiotooffset interp smoothglmderivratios traindelays = Inr cal
         \<and> patched = snd (filterderivratios themad medfilter glmderivratios n validvoxels
                            patchthresh is_cifti is_text)
         \<and> length patched = length glmderivratios
         \<and> length delayoffset = length glmderivratios
         \<and> length lagtimescorrected = length glmderivratios
         \<and> (\<forall>i<length glmderivratios.
               patched ! i =
                 (if is_text \<or> is_cifti then glmderivratios ! i
                  else if \<bar>glmderivratios ! i
                            - medfilter (populatemap glmderivratios n validvoxels) ! (validvoxels ! i)\<bar>
                          > patchthresh * themad glmderivratios
                       then medfilter (populatemap glmderivratios n validvoxels) ! (validvoxels ! i)
                       else glmderivratios ! i)
             \<and> ratiotodelay (Some cal) (patched ! i) = Inr (delayoffset ! i)
             \<and> lagtimescorrected ! i = lags ! i + delayoffset ! i)"
proof -
  define patched where "patched = snd (filterderivratios themad medfilter glmderivratios n
                            validvoxels patchthresh is_cifti is_text)"
  from run obtain cal where
    cal: "trainratiotooffset interp smoothglmderivratios traindelays = Inr cal"
    and col: "collect (map (ratiotodelay (Some cal)) patched) = Inr delayoffset"
    and cor: "lagtimescorrected = map (\<lambda>(l, d). l + d) (zip lags delayoffset)"
    unfolding refinedelay_def patched_def
    by (auto simp: Let_def split: prod.splits sum.splits)
  have lp: "length patched = length glmderivratios"
    unfolding patched_def by (rule filterderivratios_length [OF len])
  from collect_Inr [OF col] lp
  have ld: "length delayoffset = length glmderivratios"
    and nd: "\<forall>i<length glmderivratios. ratiotodelay (Some cal) (patched ! i) = Inr (delayoffset ! i)"
    by auto
  have lc: "length lagtimescorrected = length glmderivratios"
    using cor ld lenl by simp
  have nc: "\<forall>i<length glmderivratios. lagtimescorrected ! i = lags ! i + delayoffset ! i"
    using cor ld lenl by simp
  have np: "\<forall>i<length glmderivratios. patched ! i =
                 (if is_text \<or> is_cifti then glmderivratios ! i
                  else if \<bar>glmderivratios ! i
                            - medfilter (populatemap glmderivratios n validvoxels) ! (validvoxels ! i)\<bar>
                          > patchthresh * themad glmderivratios
                       then medfilter (populatemap glmderivratios n validvoxels) ! (validvoxels ! i)
                       else glmderivratios ! i)"
    unfolding patched_def using filterderivratios_nth [OF len] by blast
  show ?thesis
    using cal patched_def lp ld lc np nd nc by blast
qed

theorem refinedelay_patches_and_corrects_witness:
  "length [0, 1, 2 :: nat] = length [0, 9, 0 :: real]
   \<and> length [1, 2, 3 :: real] = length [0, 9, 0 :: real]
   \<and> refinedelay (mad (6745 / 10000)) (median_filter3 (3, 1, 1)) (\<lambda>x y t. 2 * t)
         [0, 9, 0] 3 [0, 1, 2] 3 False False [3, 1] [-1, 1] [1, 2, 3]
       = Inr ([2, 2, 2], [3, 4, 5])
   \<and> (\<exists>cal. trainratiotooffset (\<lambda>x y t. 2 * t) [3, 1] [-1, 1] = Inr cal
          \<and> ratiotodelay (Some cal)
               (snd (filterderivratios (mad (6745 / 10000)) (median_filter3 (3, 1, 1))
                       [0, 9, 0] 3 [0, 1, 2] 3 False False) ! 1)
             = Inr ([2, 2, 2] ! 1))"
proof -
  have h1: "length [0, 1, 2 :: nat] = length [0, 9, 0 :: real]" by simp
  have h2: "length [1, 2, 3 :: real] = length [0, 9, 0 :: real]" by simp
  have h3: "refinedelay (mad (6745 / 10000)) (median_filter3 (3, 1, 1)) (\<lambda>x y t. 2 * t)
         [0, 9, 0] 3 [0, 1, 2] 3 False False [3, 1] [-1, 1] [1, 2, 3]
       = Inr ([2, 2, 2], [3, 4, 5])"
    by code_simp
  from refinedelay_patches_and_corrects [OF h1 h2 h3]
  obtain cal patched where
    c: "trainratiotooffset (\<lambda>x y t. 2 * t) [3, 1] [-1, 1] = Inr cal"
    and p: "patched = snd (filterderivratios (mad (6745 / 10000)) (median_filter3 (3, 1, 1))
                        [0, 9, 0] 3 [0, 1, 2] 3 False False)"
    and a: "\<forall>i<length [0, 9, 0 :: real].
              ratiotodelay (Some cal) (patched ! i) = Inr ([2, 2, 2] ! i)"
    by blast
  have "(1::nat) < length [0, 9, 0 :: real]" by simp
  with a have "ratiotodelay (Some cal) (patched ! 1) = Inr ([2, 2, 2] ! 1)"
    by blast
  with c p h1 h2 h3 show ?thesis by blast
qed

text \<open>
  C5 as stated fails on text input: in a map of three voxels in a row with ratios 0, 9, 0 the
  middle voxel deviates from the median-filtered map (0 there) by more than 3 times the MAD
  (which is 0), and keeps its raw ratio 9.
\<close>

theorem refinedelay_patch_counterexample:
  "\<bar>[0, 9, 0 :: real] ! 1 - median_filter3 (3, 1, 1) (populatemap [0, 9, 0] 3 [0, 1, 2]) ! 1\<bar>
     > 3 * mad (6745 / 10000) [0, 9, 0]
   \<and> median_filter3 (3, 1, 1) (populatemap [0, 9, 0] 3 [0, 1, 2]) ! 1 = 0
   \<and> snd (filterderivratios (mad (6745 / 10000)) (median_filter3 (3, 1, 1)) [0, 9, 0] 3
            [0, 1, 2] 3 False True) ! 1 = 9"
  by code_simp

section \<open>Properties of the pass loop\<close>

lemma sum_sq_same: "(\<Sum>(a, b) \<leftarrow> zip x x. (a - b)\<^sup>2) = (0::real)"
  by (induction x) simp_all

lemma mse_same: "mse x x = 0"
  by (simp add: mse_def sum_sq_same)

lemma passbody_refines_ex:
  assumes "refine_wanted od p" and "0 < numinmask inp" and "0 < voxelsprocessed_rr inp"
  shows "\<exists>st'. passbody od w inp p st = Inr st'"
  using assms by (simp add: passbody_def Let_def)

lemma passbody_refines:
  assumes "refine_wanted od p" and "0 < numinmask inp" and "0 < voxelsprocessed_rr inp"
    and "passbody od w inp p st = Inr st'"
  shows "regressormse st' =
           regressormse st @ [(p, mse (normoutputdata inp) (previousnormoutputdata st))]"
    and "previousnormoutputdata st' = normoutputdata inp"
    and "stoprefining st' = spec_stop od p (mse (normoutputdata inp) (previousnormoutputdata st))"
    and "refinestopreason st' =
           (if spec_stop od p (mse (normoutputdata inp) (previousnormoutputdata st)) then
              (case convergencethresh od of
                 Some t \<Rightarrow> if maxpasses od \<le> p then ''maxpassesreached'' else ''convergence''
               | None \<Rightarrow> ''passesreached'')
            else refinestopreason st)"
    and "passes_run st' = passes_run st @ [p]"
    and "simcalls st' = simcalls st @ [w]"
  using assms
  by (auto simp: passbody_def check_convergence_def spec_stop_def Let_def
           split: option.splits if_splits)

lemma passbody_norefine:
  assumes "\<not> refine_wanted od p"
  shows "passbody od w inp p st =
           Inr (st\<lparr>thepass := p, simcalls := simcalls st @ [w], passes_run := passes_run st @ [p]\<rparr>)"
  using assms by (simp add: passbody_def Let_def)

lemma passbody_exit:
  assumes "refine_wanted od p" and "numinmask inp = 0"
  shows "passbody od w inp p st =
           Inl (SystemExit,
                st\<lparr>thepass := p, simcalls := simcalls st @ [w], passes_run := passes_run st @ [p]\<rparr>)"
  using assms by (simp add: passbody_def Let_def)

lemma passbody_emptymask:
  assumes "refine_wanted od p" and "0 < numinmask inp" and "voxelsprocessed_rr inp = 0"
  shows "passbody od w inp p st =
           Inr (st\<lparr>thepass := p, simcalls := simcalls st @ [w], passes_run := passes_run st @ [p],
                  stoprefining := True, refinestopreason := ''emptymask''\<rparr>)"
  using assms by (simp add: passbody_def Let_def)

lemma passloop_stopped:
  "stoprefining st \<Longrightarrow>
     passloop od w inp ps st = Inr (case ps of [] \<Rightarrow> st | p # qs \<Rightarrow> st\<lparr>thepass := p\<rparr>)"
  by (cases ps) simp_all

lemma passloop_stopped_fields:
  assumes "stoprefining st"
  shows "\<exists>st'. passloop od w inp ps st = Inr st'
       \<and> stoprefining st' \<and> refinestopreason st' = refinestopreason st
       \<and> passes_run st' = passes_run st \<and> simcalls st' = simcalls st
       \<and> regressormse st' = regressormse st
       \<and> previousnormoutputdata st' = previousnormoutputdata st"
  using assms by (cases ps) simp_all

lemma passloop_thresh:
  assumes thr: "convergencethresh od = Some t"
    and ok: "\<And>p. 0 < numinmask (inp p) \<and> 0 < voxelsprocessed_rr (inp p)"
    and mx: "maxpasses od \<le> n"
  shows "\<not> stoprefining st \<Longrightarrow> 1 \<le> i \<Longrightarrow> i \<le> n \<Longrightarrow>
         previousnormoutputdata st = (if i = 1 then ref else normoutputdata (inp (i - 1))) \<Longrightarrow>
         \<exists>st' k. passloop od w inp [i..n] st = Inr st' \<and> i \<le> k \<and> k \<le> n
           \<and> passes_run st' = passes_run st @ [i..k]
           \<and> stoprefining st'
           \<and> spec_stop od k (pass_metric inp ref k)
           \<and> (\<forall>p. i \<le> p \<and> p < k \<longrightarrow> \<not> spec_stop od p (pass_metric inp ref p))
           \<and> refinestopreason st' =
               (if maxpasses od \<le> k then ''maxpassesreached'' else ''convergence'')
           \<and> regressormse st' = regressormse st @ map (\<lambda>p. (p, pass_metric inp ref p)) [i..k]"
proof (induction "nat (n - i)" arbitrary: i st rule: less_induct)
  case less
  have rw: "refine_wanted od i" using thr by (simp add: refine_wanted_def)
  have m: "mse (normoutputdata (inp i)) (previousnormoutputdata st) = pass_metric inp ref i"
    using less.prems(4) by (simp add: pass_metric_def)
  have n0: "0 < numinmask (inp i)" and v0: "0 < voxelsprocessed_rr (inp i)"
    using ok [of i] by simp_all
  from passbody_refines_ex [OF rw n0 v0]
  obtain st1 where b: "passbody od w (inp i) i st = Inr st1" by blast
  note pr = passbody_refines [OF rw n0 v0 b, unfolded m]
  have r1: "regressormse st1 = regressormse st @ [(i, pass_metric inp ref i)]"
    and p1: "previousnormoutputdata st1 = normoutputdata (inp i)"
    and s1: "stoprefining st1 = spec_stop od i (pass_metric inp ref i)"
    and q1: "refinestopreason st1 =
           (if spec_stop od i (pass_metric inp ref i) then
              (case convergencethresh od of
                 Some t \<Rightarrow> if maxpasses od \<le> i then ''maxpassesreached'' else ''convergence''
               | None \<Rightarrow> ''passesreached'')
            else refinestopreason st)"
    and u1: "passes_run st1 = passes_run st @ [i]"
    using pr by simp_all
  have unf: "passloop od w inp [i..n] st = passloop od w inp [i + 1..n] st1"
    using less.prems(1,3) b by (simp add: upto_rec1)
  show ?case
  proof (cases "spec_stop od i (pass_metric inp ref i)")
    case True
    with s1 have st: "stoprefining st1" by simp
    from passloop_stopped_fields [OF st, of od w inp "[i + 1..n]"]
    obtain st' where f: "passloop od w inp [i + 1..n] st1 = Inr st'"
      "stoprefining st'" "refinestopreason st' = refinestopreason st1"
      "passes_run st' = passes_run st1" "regressormse st' = regressormse st1"
      by blast
    have "passloop od w inp [i..n] st = Inr st' \<and> i \<le> i \<and> i \<le> n
           \<and> passes_run st' = passes_run st @ [i..i]
           \<and> stoprefining st'
           \<and> spec_stop od i (pass_metric inp ref i)
           \<and> (\<forall>p. i \<le> p \<and> p < i \<longrightarrow> \<not> spec_stop od p (pass_metric inp ref p))
           \<and> refinestopreason st' =
               (if maxpasses od \<le> i then ''maxpassesreached'' else ''convergence'')
           \<and> regressormse st' = regressormse st @ map (\<lambda>p. (p, pass_metric inp ref p)) [i..i]"
      using unf f True q1 u1 r1 thr less.prems(3) by auto
    then show ?thesis by blast
  next
    case False
    with s1 have ns: "\<not> stoprefining st1" by simp
    from False thr have lt: "i < maxpasses od" by (simp add: spec_stop_def)
    with mx have le: "i + 1 \<le> n" by simp
    have d: "nat (n - (i + 1)) < nat (n - i)" using le by simp
    have pv: "previousnormoutputdata st1 =
               (if i + 1 = 1 then ref else normoutputdata (inp (i + 1 - 1)))"
      using p1 less.prems(2) by simp
    from less.hyps [OF d ns _ le pv] less.prems(2)
    obtain st' k where h: "passloop od w inp [i + 1..n] st1 = Inr st'" "i + 1 \<le> k" "k \<le> n"
      "passes_run st' = passes_run st1 @ [i + 1..k]" "stoprefining st'"
      "spec_stop od k (pass_metric inp ref k)"
      "\<forall>p. i + 1 \<le> p \<and> p < k \<longrightarrow> \<not> spec_stop od p (pass_metric inp ref p)"
      "refinestopreason st' = (if maxpasses od \<le> k then ''maxpassesreached'' else ''convergence'')"
      "regressormse st' = regressormse st1 @ map (\<lambda>p. (p, pass_metric inp ref p)) [i + 1..k]"
      by auto
    have ik: "[i..k] = i # [i + 1..k]" using h(2) by (simp add: upto_rec1)
    have mn: "\<forall>p. i \<le> p \<and> p < k \<longrightarrow> \<not> spec_stop od p (pass_metric inp ref p)"
    proof (intro allI impI)
      fix p assume "i \<le> p \<and> p < k"
      then have "p = i \<or> (i + 1 \<le> p \<and> p < k)" by arith
      with False h(7) show "\<not> spec_stop od p (pass_metric inp ref p)" by blast
    qed
    have "passloop od w inp [i..n] st = Inr st' \<and> i \<le> k \<and> k \<le> n
           \<and> passes_run st' = passes_run st @ [i..k]
           \<and> stoprefining st'
           \<and> spec_stop od k (pass_metric inp ref k)
           \<and> (\<forall>p. i \<le> p \<and> p < k \<longrightarrow> \<not> spec_stop od p (pass_metric inp ref p))
           \<and> refinestopreason st' =
               (if maxpasses od \<le> k then ''maxpassesreached'' else ''convergence'')
           \<and> regressormse st' = regressormse st @ map (\<lambda>p. (p, pass_metric inp ref p)) [i..k]"
      using unf h mn u1 r1 ik by simp
    then show ?thesis by blast
  qed
qed


lemma passloop_nothresh:
  assumes thr: "convergencethresh od = None"
    and ok: "\<And>p. 0 < numinmask (inp p) \<and> 0 < voxelsprocessed_rr (inp p)"
  shows "\<not> stoprefining st \<Longrightarrow> refinestopreason st = ''passesreached'' \<Longrightarrow>
         \<exists>st'. passloop od w inp [i..passes od] st = Inr st'
           \<and> passes_run st' = passes_run st @ [i..passes od]
           \<and> refinestopreason st' = ''passesreached''"
proof (induction "nat (passes od + 1 - i)" arbitrary: i st rule: less_induct)
  case less
  show ?case
  proof (cases "i \<le> passes od")
    case False
    then show ?thesis using less.prems(2) by simp
  next
    case le: True
    have n0: "0 < numinmask (inp i)" and v0: "0 < voxelsprocessed_rr (inp i)"
      using ok [of i] by simp_all
    show ?thesis
    proof (cases "refine_wanted od i")
      case rw: True
      from passbody_refines_ex [OF rw n0 v0]
      obtain st1 where b: "passbody od w (inp i) i st = Inr st1" by blast
      note pr = passbody_refines [OF rw n0 v0 b]
      have unf: "passloop od w inp [i..passes od] st = passloop od w inp [i + 1..passes od] st1"
        using less.prems(1) le b by (simp add: upto_rec1)
      show ?thesis
      proof (cases "passes od \<le> i")
        case True
        with le have e: "i = passes od" by simp
        have "refinestopreason st1 = ''passesreached''"
          using pr(4) thr less.prems(2) by (simp add: spec_stop_def)
        then show ?thesis
          using unf pr(5) e by simp
      next
        case False
        then have ns: "\<not> stoprefining st1" using pr(3) thr by (simp add: spec_stop_def)
        have q: "refinestopreason st1 = ''passesreached''"
          using pr(4) thr less.prems(2) False by (simp add: spec_stop_def)
        have d: "nat (passes od + 1 - (i + 1)) < nat (passes od + 1 - i)" using le by simp
        from less.hyps [OF d ns q]
        obtain st' where h: "passloop od w inp [i + 1..passes od] st1 = Inr st'"
          "passes_run st' = passes_run st1 @ [i + 1..passes od]"
          "refinestopreason st' = ''passesreached''"
          by blast
        have "[i..passes od] = i # [i + 1..passes od]" using le by (simp add: upto_rec1)
        then show ?thesis using unf h pr(5) by simp
      qed
    next
      case nrw: False
      then have e: "i = passes od" using le by (simp add: refine_wanted_def)
      have "passloop od w inp [i..passes od] st =
              Inr (st\<lparr>thepass := i, simcalls := simcalls st @ [w],
                      passes_run := passes_run st @ [i]\<rparr>)"
        using less.prems(1) passbody_norefine [OF nrw] e by (simp add: upto_rec1)
      then show ?thesis using e less.prems(2) by simp
    qed
  qed
qed

lemma passbody_simcalls:
  "passbody od w inp p st = Inr st' \<Longrightarrow>
     simcalls st' = simcalls st @ [w] \<and> passes_run st' = passes_run st @ [p]"
  by (auto simp: passbody_def check_convergence_def Let_def split: if_splits option.splits)

lemma passloop_simcalls:
  "passloop od w inp ps st = Inr st' \<Longrightarrow>
     \<exists>k\<le>length ps. simcalls st' = simcalls st @ replicate k w
                   \<and> passes_run st' = passes_run st @ take k ps"
proof (induction ps arbitrary: st)
  case Nil
  then show ?case by simp
next
  case (Cons p ps)
  show ?case
  proof (cases "stoprefining st")
    case True
    with Cons.prems have "st' = st\<lparr>thepass := p\<rparr>" by simp
    then have "simcalls st' = simcalls st @ replicate 0 w
                \<and> passes_run st' = passes_run st @ take 0 (p # ps)" by simp
    then show ?thesis by blast
  next
    case False
    with Cons.prems obtain st1 where b: "passbody od w (inp p) p st = Inr st1"
      and l: "passloop od w inp ps st1 = Inr st'"
      by (auto split: sum.splits)
    from Cons.IH [OF l] obtain k where k: "k \<le> length ps"
      "simcalls st' = simcalls st1 @ replicate k w"
      "passes_run st' = passes_run st1 @ take k ps" by blast
    from passbody_simcalls [OF b] k
    have "Suc k \<le> length (p # ps) \<and> simcalls st' = simcalls st @ replicate (Suc k) w
            \<and> passes_run st' = passes_run st @ take (Suc k) (p # ps)"
      by (simp add: replicate_app_Cons_same)
    then show ?thesis by blast
  qed
qed

lemma run_passes_thresh:
  assumes ok: "\<And>p. 0 < numinmask (inp p) \<and> 0 < voxelsprocessed_rr (inp p)"
    and thr: "convergencethresh od = Some t" and np: "1 \<le> numpasses od"
  shows "\<exists>st k. run_passes od w inp ref = Inr st \<and> 1 \<le> k \<and> k \<le> max 1 (maxpasses od)
           \<and> passes_run st = [1..k]
           \<and> spec_stop od k (pass_metric inp ref k)
           \<and> (\<forall>p. 1 \<le> p \<and> p < k \<longrightarrow> \<not> spec_stop od p (pass_metric inp ref p))
           \<and> regressormse st = map (\<lambda>p. (p, pass_metric inp ref p)) [1..k]
           \<and> refinestopreason st =
               (if maxpasses od \<le> k then ''maxpassesreached'' else ''convergence'')"
proof -
  have mx: "maxpasses od \<le> numpasses od" using thr by (simp add: numpasses_def)
  have ns: "\<not> stoprefining (initial_loopstate od w ref)"
    by (simp add: initial_loopstate_def)
  have pv: "previousnormoutputdata (initial_loopstate od w ref) =
              (if (1::int) = 1 then ref else normoutputdata (inp (1 - 1)))"
    by (simp add: initial_loopstate_def)
  have one: "(1::int) \<le> 1" by simp
  from passloop_thresh [where i = 1 and n = "numpasses od" and w = w and ref = ref
                          and st = "initial_loopstate od w ref" and inp = inp and od = od
                          and t = t, OF thr ok mx ns one np pv]
  obtain st k where h: "passloop od w inp [1..numpasses od] (initial_loopstate od w ref) = Inr st"
    "1 \<le> k" "k \<le> numpasses od"
    "passes_run st = passes_run (initial_loopstate od w ref) @ [1..k]"
    "spec_stop od k (pass_metric inp ref k)"
    "\<forall>p. 1 \<le> p \<and> p < k \<longrightarrow> \<not> spec_stop od p (pass_metric inp ref p)"
    "refinestopreason st = (if maxpasses od \<le> k then ''maxpassesreached'' else ''convergence'')"
    "regressormse st = regressormse (initial_loopstate od w ref)
                        @ map (\<lambda>p. (p, pass_metric inp ref p)) [1..k]"
    by auto
  have kb: "k \<le> max 1 (maxpasses od)"
  proof (cases "k = 1")
    case True
    then show ?thesis by simp
  next
    case False
    with h(2) have "1 \<le> k - 1 \<and> k - 1 < k" by simp
    with h(6) have "\<not> spec_stop od (k - 1) (pass_metric inp ref (k - 1))" by blast
    with thr have "k - 1 < maxpasses od" by (simp add: spec_stop_def)
    then show ?thesis by simp
  qed
  have "run_passes od w inp ref = Inr st \<and> 1 \<le> k \<and> k \<le> max 1 (maxpasses od)
           \<and> passes_run st = [1..k]
           \<and> spec_stop od k (pass_metric inp ref k)
           \<and> (\<forall>p. 1 \<le> p \<and> p < k \<longrightarrow> \<not> spec_stop od p (pass_metric inp ref p))
           \<and> regressormse st = map (\<lambda>p. (p, pass_metric inp ref p)) [1..k]
           \<and> refinestopreason st =
               (if maxpasses od \<le> k then ''maxpassesreached'' else ''convergence'')"
    using h kb by (simp add: run_passes_def initial_loopstate_def)
  then show ?thesis by blast
qed

lemma run_passes_nothresh:
  assumes ok: "\<And>p. 0 < numinmask (inp p) \<and> 0 < voxelsprocessed_rr (inp p)"
    and thr: "convergencethresh od = None"
  shows "\<exists>st. run_passes od w inp ref = Inr st \<and> passes_run st = [1..passes od]
           \<and> refinestopreason st = ''passesreached''"
proof -
  have ns: "\<not> stoprefining (initial_loopstate od w ref)"
    and q: "refinestopreason (initial_loopstate od w ref) = ''passesreached''"
    by (simp_all add: initial_loopstate_def)
  from passloop_nothresh [where i = 1 and w = w and st = "initial_loopstate od w ref"
                            and inp = inp and od = od,
                            OF thr ok ns q]
  show ?thesis
    using thr by (simp add: run_passes_def numpasses_def initial_loopstate_def)
qed

lemma passbody_metric:
  assumes "refine_wanted od p" and "0 < numinmask pin" and "0 < voxelsprocessed_rr pin"
  shows "\<exists>st'. passbody od w pin p st = Inr st'
           \<and> regressormse st' =
               regressormse st @ [(p, mse (normoutputdata pin) (previousnormoutputdata st))]
           \<and> previousnormoutputdata st' = normoutputdata pin
           \<and> stoprefining st' =
               spec_stop od p (mse (normoutputdata pin) (previousnormoutputdata st))"
proof -
  from passbody_refines_ex [OF assms]
  obtain st' where b: "passbody od w pin p st = Inr st'" by blast
  from passbody_refines(1-3) [OF assms b] b show ?thesis by blast
qed

text \<open>
  C1. The mean squared error of a regressor with itself is exactly zero. In every pass whose
  refinement step runs with a non-empty refine mask and at least one voxel processed, the
  metric recorded for the pass is the mean squared error between the new candidate and the
  previous one, the new candidate becomes the previous one, and the loop is told to stop
  exactly when the rule of the specification says so for that metric. Once told to stop,
  the loop runs no further pass. Over a whole run in which every pass processes voxels:
  with a convergence threshold the passes run are 1 to \<open>k\<close>, where \<open>k\<close> is the first
  pass whose metric is below the threshold or that reaches \<open>maxpasses\<close>, whichever comes
  first, and the recorded reason says which; without a threshold the passes run are 1 to
  \<open>passes\<close>.
\<close>

theorem refinement_stops_on_convergence_or_budget:
  "mse x x = 0
   \<and> (refine_wanted od p \<and> 0 < numinmask pin \<and> 0 < voxelsprocessed_rr pin
      \<longrightarrow> (\<exists>st'. passbody od w pin p st = Inr st'
            \<and> regressormse st' =
                regressormse st @ [(p, mse (normoutputdata pin) (previousnormoutputdata st))]
            \<and> previousnormoutputdata st' = normoutputdata pin
            \<and> stoprefining st' =
                spec_stop od p (mse (normoutputdata pin) (previousnormoutputdata st))))
   \<and> (stoprefining st
      \<longrightarrow> (\<exists>st'. passloop od w inp ps st = Inr st' \<and> passes_run st' = passes_run st
            \<and> refinestopreason st' = refinestopreason st))
   \<and> ((\<forall>q. 0 < numinmask (inp q) \<and> 0 < voxelsprocessed_rr (inp q))
       \<and> convergencethresh od = Some t \<and> 1 \<le> numpasses od
      \<longrightarrow> (\<exists>st' k. run_passes od w inp ref = Inr st' \<and> 1 \<le> k \<and> k \<le> max 1 (maxpasses od)
            \<and> passes_run st' = [1..k]
            \<and> spec_stop od k (pass_metric inp ref k)
            \<and> (\<forall>q. 1 \<le> q \<and> q < k \<longrightarrow> \<not> spec_stop od q (pass_metric inp ref q))
            \<and> regressormse st' = map (\<lambda>q. (q, pass_metric inp ref q)) [1..k]
            \<and> refinestopreason st' =
                (if maxpasses od \<le> k then ''maxpassesreached'' else ''convergence'')))
   \<and> ((\<forall>q. 0 < numinmask (inp q) \<and> 0 < voxelsprocessed_rr (inp q))
       \<and> convergencethresh od = None
      \<longrightarrow> (\<exists>st'. run_passes od w inp ref = Inr st' \<and> passes_run st' = [1..passes od]
            \<and> refinestopreason st' = ''passesreached''))"
proof -
  have 1: "mse x x = 0" by (rule mse_same)
  have 2: "refine_wanted od p \<and> 0 < numinmask pin \<and> 0 < voxelsprocessed_rr pin
      \<longrightarrow> (\<exists>st'. passbody od w pin p st = Inr st'
            \<and> regressormse st' =
                regressormse st @ [(p, mse (normoutputdata pin) (previousnormoutputdata st))]
            \<and> previousnormoutputdata st' = normoutputdata pin
            \<and> stoprefining st' =
                spec_stop od p (mse (normoutputdata pin) (previousnormoutputdata st)))"
    using passbody_metric [of od p pin w st] by blast
  have 3: "stoprefining st
      \<longrightarrow> (\<exists>st'. passloop od w inp ps st = Inr st' \<and> passes_run st' = passes_run st
            \<and> refinestopreason st' = refinestopreason st)"
    using passloop_stopped_fields [of st od w inp ps] by blast
  have 4: "(\<forall>q. 0 < numinmask (inp q) \<and> 0 < voxelsprocessed_rr (inp q))
       \<and> convergencethresh od = Some t \<and> 1 \<le> numpasses od
      \<longrightarrow> (\<exists>st' k. run_passes od w inp ref = Inr st' \<and> 1 \<le> k \<and> k \<le> max 1 (maxpasses od)
            \<and> passes_run st' = [1..k]
            \<and> spec_stop od k (pass_metric inp ref k)
            \<and> (\<forall>q. 1 \<le> q \<and> q < k \<longrightarrow> \<not> spec_stop od q (pass_metric inp ref q))
            \<and> regressormse st' = map (\<lambda>q. (q, pass_metric inp ref q)) [1..k]
            \<and> refinestopreason st' =
                (if maxpasses od \<le> k then ''maxpassesreached'' else ''convergence''))"
    using run_passes_thresh [of inp od t w ref] by blast
  have 5: "(\<forall>q. 0 < numinmask (inp q) \<and> 0 < voxelsprocessed_rr (inp q))
       \<and> convergencethresh od = None
      \<longrightarrow> (\<exists>st'. run_passes od w inp ref = Inr st' \<and> passes_run st' = [1..passes od]
            \<and> refinestopreason st' = ''passesreached'')"
    using run_passes_nothresh [of inp od w ref] by blast
  from 1 2 3 4 5 show ?thesis by blast
qed

theorem refinement_stops_on_convergence_or_budget_witness:
  "(\<forall>q. 0 < numinmask (demo_pass q) \<and> 0 < voxelsprocessed_rr (demo_pass q))
   \<and> convergencethresh demo_options = Some (1 / 100) \<and> 1 \<le> numpasses demo_options
   \<and> run_passes demo_options (29, 30) demo_pass [0, 1, 0, - 1] =
       Inr \<lparr>stoprefining = True, refinestopreason = ''convergence'',
            previousnormoutputdata = [0, 1, 1, - 1], regressormse = [(1, 1 / 4), (2, 0)],
            thepass = 3, simcalls = [(29, 30), (29, 30), (29, 30)], passes_run = [1, 2]\<rparr>
   \<and> (\<exists>st' k. run_passes demo_options (29, 30) demo_pass [0, 1, 0, - 1] = Inr st'
          \<and> 1 \<le> k \<and> k \<le> max 1 (maxpasses demo_options)
          \<and> passes_run st' = [1..k]
          \<and> spec_stop demo_options k (pass_metric demo_pass [0, 1, 0, - 1] k))"
proof -
  have a: "\<forall>q. 0 < numinmask (demo_pass q) \<and> 0 < voxelsprocessed_rr (demo_pass q)"
    by (simp add: demo_pass_def)
  have b: "convergencethresh demo_options = Some (1 / 100)"
    by (simp add: demo_options_def)
  have c: "1 \<le> numpasses demo_options"
    by (simp add: numpasses_def demo_options_def)
  have d: "run_passes demo_options (29, 30) demo_pass [0, 1, 0, - 1] =
       Inr \<lparr>stoprefining = True, refinestopreason = ''convergence'',
            previousnormoutputdata = [0, 1, 1, - 1], regressormse = [(1, 1 / 4), (2, 0)],
            thepass = 3, simcalls = [(29, 30), (29, 30), (29, 30)], passes_run = [1, 2]\<rparr>"
    by code_simp
  from refinement_stops_on_convergence_or_budget
         [where od = demo_options and inp = demo_pass and t = "1 / 100" and w = "(29, 30)"
            and ref = "[0, 1, 0, - 1]" and x = "[]" and p = 1 and pin = "demo_pass 1"
            and st = "initial_loopstate demo_options (29, 30) [0, 1, 0, - 1]" and ps = "[]"]
  have "(\<forall>q. 0 < numinmask (demo_pass q) \<and> 0 < voxelsprocessed_rr (demo_pass q))
       \<and> convergencethresh demo_options = Some (1 / 100) \<and> 1 \<le> numpasses demo_options
      \<longrightarrow> (\<exists>st' k. run_passes demo_options (29, 30) demo_pass [0, 1, 0, - 1] = Inr st'
            \<and> 1 \<le> k \<and> k \<le> max 1 (maxpasses demo_options)
            \<and> passes_run st' = [1..k]
            \<and> spec_stop demo_options k (pass_metric demo_pass [0, 1, 0, - 1] k)
            \<and> (\<forall>q. 1 \<le> q \<and> q < k
                  \<longrightarrow> \<not> spec_stop demo_options q (pass_metric demo_pass [0, 1, 0, - 1] q))
            \<and> regressormse st' = map (\<lambda>q. (q, pass_metric demo_pass [0, 1, 0, - 1] q)) [1..k]
            \<and> refinestopreason st' =
                (if maxpasses demo_options \<le> k then ''maxpassesreached'' else ''convergence''))"
    by (elim conjE)
  with a b c have "\<exists>st' k. run_passes demo_options (29, 30) demo_pass [0, 1, 0, - 1] = Inr st'
          \<and> 1 \<le> k \<and> k \<le> max 1 (maxpasses demo_options)
          \<and> passes_run st' = [1..k]
          \<and> spec_stop demo_options k (pass_metric demo_pass [0, 1, 0, - 1] k)"
    by blast
  with a b c d show ?thesis by blast
qed

subsection \<open>Empty refine masks\<close>

lemma passloop_exit:
  assumes "\<not> stoprefining st" and "refine_wanted od p" and "numinmask (inp p) = 0"
  shows "passloop od w inp (p # ps) st =
           Inl (SystemExit,
                st\<lparr>thepass := p, simcalls := simcalls st @ [w], passes_run := passes_run st @ [p]\<rparr>)"
  using assms passbody_exit [of od p "inp p" w st] by simp

lemma passloop_emptymask:
  assumes "\<not> stoprefining st" and "refine_wanted od p" and "0 < numinmask (inp p)"
    and "voxelsprocessed_rr (inp p) = 0"
  shows "\<exists>st'. passloop od w inp (p # ps) st = Inr st' \<and> stoprefining st'
           \<and> refinestopreason st' = ''emptymask'' \<and> passes_run st' = passes_run st @ [p]"
proof -
  let ?s = "st\<lparr>thepass := p, simcalls := simcalls st @ [w], passes_run := passes_run st @ [p],
                stoprefining := True, refinestopreason := ''emptymask''\<rparr>"
  have b: "passbody od w (inp p) p st = Inr ?s"
    using passbody_emptymask [OF assms(2-4)] by simp
  have s: "stoprefining ?s" by simp
  from passloop_stopped_fields [OF s, of od w inp ps]
  obtain st' where "passloop od w inp ps ?s = Inr st'" "stoprefining st'"
    "refinestopreason st' = refinestopreason ?s" "passes_run st' = passes_run ?s"
    by blast
  then have "passloop od w inp (p # ps) st = Inr st' \<and> stoprefining st'
           \<and> refinestopreason st' = ''emptymask'' \<and> passes_run st' = passes_run st @ [p]"
    using assms(1) b by simp
  then show ?thesis by blast
qed

lemma main_passes_exit:
  assumes "snd (rapidtide_startup od env) = Next w"
    and "run_passes od w inp (resampnonosref_y env) = Inl (e, st1)"
  shows "rapidtide_main od env inp m0 =
           ([m0, m0\<lparr>done_file := False\<rparr>, m0\<lparr>done_file := False, isrunning_file := True\<rparr>],
            fst (rapidtide_startup od env) @ voxel_events st1, Failed e)"
  using assms by (cases "rapidtide_startup od env") (simp add: rapidtide_main_def Let_def)

text \<open>
  C2. In a pass that refines, a refine mask with no voxel exits the program at once: the
  loop ends with \<open>SystemExit\<close> in the state of that pass, and so does the run. When the
  mask is not empty but the regressor combination has processed no voxel, the pass ends
  normally, the loop is told to stop with the reason \<open>emptymask\<close>, and no further pass
  runs.
\<close>

theorem empty_refine_mask_ends_refinement:
  "(\<not> stoprefining st \<and> refine_wanted od p \<and> numinmask (inp p) = 0
      \<longrightarrow> passloop od w inp (p # ps) st =
            Inl (SystemExit,
                 st\<lparr>thepass := p, simcalls := simcalls st @ [w],
                    passes_run := passes_run st @ [p]\<rparr>))
   \<and> (snd (rapidtide_startup od env) = Next w
       \<and> run_passes od w inp (resampnonosref_y env) = Inl (SystemExit, st1)
      \<longrightarrow> rapidtide_main od env inp m0 =
            ([m0, m0\<lparr>done_file := False\<rparr>, m0\<lparr>done_file := False, isrunning_file := True\<rparr>],
             fst (rapidtide_startup od env) @ voxel_events st1, Failed SystemExit))
   \<and> (\<not> stoprefining st \<and> refine_wanted od p \<and> 0 < numinmask (inp p)
       \<and> voxelsprocessed_rr (inp p) = 0
      \<longrightarrow> (\<exists>st'. passloop od w inp (p # ps) st = Inr st' \<and> stoprefining st'
            \<and> refinestopreason st' = ''emptymask''
            \<and> passes_run st' = passes_run st @ [p]))"
  using passloop_exit [of st od p inp w ps] passloop_emptymask [of st od p inp w ps]
    main_passes_exit [of od env w inp SystemExit st1 m0]
  by blast

theorem empty_refine_mask_ends_refinement_witness:
  "rapidtide_main demo_options demo_env
       (\<lambda>q. \<lparr>numinmask = 0, voxelsprocessed_rr = 0, normoutputdata = []\<rparr>)
       \<lparr>isrunning_file = False, done_file = True\<rparr> =
     ([\<lparr>isrunning_file = False, done_file = True\<rparr>,
       \<lparr>isrunning_file = False, done_file = False\<rparr>,
       \<lparr>isrunning_file = True, done_file = False\<rparr>],
      [VoxelSimilarity 29 30, VoxelSimilarity 29 30], Failed SystemExit)
   \<and> (\<exists>st'. passloop demo_options (29, 30)
               (\<lambda>q. \<lparr>numinmask = 5, voxelsprocessed_rr = 0, normoutputdata = []\<rparr>)
               (1 # [2, 3, 4]) (initial_loopstate demo_options (29, 30) [0, 1, 0, - 1]) = Inr st'
          \<and> stoprefining st' \<and> refinestopreason st' = ''emptymask''
          \<and> passes_run st' = [1])"
proof -
  let ?i = "initial_loopstate demo_options (29, 30) [0, 1, 0, - 1]"
  let ?x = "?i\<lparr>thepass := 1, simcalls := simcalls ?i @ [(29, 30)],
               passes_run := passes_run ?i @ [1]\<rparr>"
  have s: "rapidtide_startup demo_options demo_env = ([], Next (29, 30))"
    by code_simp
  have ns: "\<not> stoprefining ?i"
    by (simp add: initial_loopstate_def)
  have pr: "passes_run ?i = []"
    by (simp add: initial_loopstate_def)
  have rw: "refine_wanted demo_options 1"
    by (simp add: refine_wanted_def demo_options_def)
  have r: "resampnonosref_y demo_env = [0, 1, 0, - 1]" "numpasses demo_options = 4"
    by (simp_all add: demo_env_def numpasses_def demo_options_def)
  have u: "[1..4] = (1::int) # [2, 3, 4]"
    by code_simp
  have v: "voxel_events ?x = [VoxelSimilarity 29 30, VoxelSimilarity 29 30]"
    by (simp add: voxel_events_def initial_loopstate_def demo_options_def)
  note t1 = empty_refine_mask_ends_refinement
    [where st = ?i and od = demo_options
       and p = 1 and inp = "\<lambda>q. \<lparr>numinmask = 0, voxelsprocessed_rr = 0, normoutputdata = []\<rparr>"
       and w = "(29, 30)" and ps = "[2, 3, 4]" and env = demo_env and ?st1.0 = ?x
       and ?m0.0 = "\<lparr>isrunning_file = False, done_file = True\<rparr>"]
  note t2 = empty_refine_mask_ends_refinement
    [where st = ?i and od = demo_options
       and p = 1 and inp = "\<lambda>q. \<lparr>numinmask = 5, voxelsprocessed_rr = 0, normoutputdata = []\<rparr>"
       and w = "(29, 30)" and ps = "[2, 3, 4]" and env = demo_env and ?st1.0 = ?x
       and ?m0.0 = "\<lparr>isrunning_file = False, done_file = True\<rparr>"]
  have e: "passloop demo_options (29, 30)
             (\<lambda>q. \<lparr>numinmask = 0, voxelsprocessed_rr = 0, normoutputdata = []\<rparr>)
             (1 # [2, 3, 4]) ?i = Inl (SystemExit, ?x)"
    using t1 ns rw by simp
  then have "run_passes demo_options (29, 30)
             (\<lambda>q. \<lparr>numinmask = 0, voxelsprocessed_rr = 0, normoutputdata = []\<rparr>)
             (resampnonosref_y demo_env) = Inl (SystemExit, ?x)"
    unfolding run_passes_def r u .
  with t1 s v have a: "rapidtide_main demo_options demo_env
       (\<lambda>q. \<lparr>numinmask = 0, voxelsprocessed_rr = 0, normoutputdata = []\<rparr>)
       \<lparr>isrunning_file = False, done_file = True\<rparr> =
     ([\<lparr>isrunning_file = False, done_file = True\<rparr>,
       \<lparr>isrunning_file = False, done_file = False\<rparr>,
       \<lparr>isrunning_file = True, done_file = False\<rparr>],
      [VoxelSimilarity 29 30, VoxelSimilarity 29 30], Failed SystemExit)"
    by simp
  have b: "\<exists>st'. passloop demo_options (29, 30)
               (\<lambda>q. \<lparr>numinmask = 5, voxelsprocessed_rr = 0, normoutputdata = []\<rparr>)
               (1 # [2, 3, 4]) ?i = Inr st'
          \<and> stoprefining st' \<and> refinestopreason st' = ''emptymask''
          \<and> passes_run st' = [1]"
    using t2 ns rw pr by simp
  from a b show ?thesis by blast
qed

section \<open>Properties of the lifecycle markers\<close>

lemma rapidtide_main_completes:
  assumes "rapidtide_main od env inp m0 = (trace, events, res)"
  shows "(\<exists>st. res = Completed st) \<longleftrightarrow>
         (\<exists>w st. snd (rapidtide_startup od env) = Next w
                \<and> run_passes od w inp (resampnonosref_y env) = Inr st
                \<and> postfailure env = None)"
  using assms
  by (cases "rapidtide_startup od env")
     (auto simp: rapidtide_main_def Let_def split: stage.splits sum.splits option.splits)

lemma rapidtide_main_shape:
  assumes "rapidtide_main od env inp m0 = (trace, events, res)"
  shows "(trace = [m0, m0\<lparr>done_file := False\<rparr>, m0\<lparr>done_file := False, isrunning_file := True\<rparr>]
            \<and> (\<forall>st. res \<noteq> Completed st))
       \<or> (trace = [m0, m0\<lparr>done_file := False\<rparr>, m0\<lparr>done_file := False, isrunning_file := True\<rparr>,
                    m0\<lparr>done_file := False, isrunning_file := False\<rparr>,
                    m0\<lparr>done_file := True, isrunning_file := False\<rparr>]
            \<and> (\<exists>st. res = Completed st))"
  using assms
  by (cases "rapidtide_startup od env")
     (auto simp: rapidtide_main_def Let_def split: stage.splits sum.splits option.splits)

text \<open>
  C9, as amended. A run completes exactly when the start-up hands over a lag window, the
  pass loop returns and nothing fails after it. The run starts from whatever markers it
  finds, unlinks the completion file \<open>_DONE.txt\<close> and touches the canary
  \<open>_ISRUNNING.txt\<close>. A run that completes then unlinks the canary and touches the
  completion file as its last two steps; any other run, whether it raises, exits or returns
  early, stops after the first two steps, with no completion file and the canary left in
  place. So at every point after the first step the completion file exists only in the last
  state of a run that completed, and the canary is missing only in the last two states of
  such a run.
\<close>

theorem lifecycle_markers:
  assumes "rapidtide_main od env inp m0 = (trace, events, res)"
  shows "((\<exists>st. res = Completed st) \<longleftrightarrow>
            (\<exists>w st. snd (rapidtide_startup od env) = Next w
                   \<and> run_passes od w inp (resampnonosref_y env) = Inr st
                   \<and> postfailure env = None))
       \<and> ((\<exists>st. res = Completed st)
            \<longrightarrow> trace = [m0, m0\<lparr>done_file := False\<rparr>,
                          m0\<lparr>done_file := False, isrunning_file := True\<rparr>,
                          m0\<lparr>done_file := False, isrunning_file := False\<rparr>,
                          m0\<lparr>done_file := True, isrunning_file := False\<rparr>])
       \<and> ((\<forall>st. res \<noteq> Completed st)
            \<longrightarrow> trace = [m0, m0\<lparr>done_file := False\<rparr>,
                          m0\<lparr>done_file := False, isrunning_file := True\<rparr>])
       \<and> (\<forall>i. 0 < i \<and> i < length trace \<and> done_file (trace ! i)
              \<longrightarrow> (\<exists>st. res = Completed st) \<and> Suc i = length trace)
       \<and> (\<forall>i. 2 \<le> i \<and> i < length trace \<and> \<not> isrunning_file (trace ! i)
              \<longrightarrow> (\<exists>st. res = Completed st) \<and> length trace \<le> i + 2)"
proof -
  note c = rapidtide_main_completes [OF assms]
  from rapidtide_main_shape [OF assms]
  consider
    (short) "trace = [m0, m0\<lparr>done_file := False\<rparr>, m0\<lparr>done_file := False, isrunning_file := True\<rparr>]"
            "\<forall>st. res \<noteq> Completed st"
  | (full) "trace = [m0, m0\<lparr>done_file := False\<rparr>, m0\<lparr>done_file := False, isrunning_file := True\<rparr>,
                    m0\<lparr>done_file := False, isrunning_file := False\<rparr>,
                    m0\<lparr>done_file := True, isrunning_file := False\<rparr>]"
           "\<exists>st. res = Completed st"
    by blast
  then have r: "((\<exists>st. res = Completed st)
            \<longrightarrow> trace = [m0, m0\<lparr>done_file := False\<rparr>,
                          m0\<lparr>done_file := False, isrunning_file := True\<rparr>,
                          m0\<lparr>done_file := False, isrunning_file := False\<rparr>,
                          m0\<lparr>done_file := True, isrunning_file := False\<rparr>])
       \<and> ((\<forall>st. res \<noteq> Completed st)
            \<longrightarrow> trace = [m0, m0\<lparr>done_file := False\<rparr>,
                          m0\<lparr>done_file := False, isrunning_file := True\<rparr>])
       \<and> (\<forall>i. 0 < i \<and> i < length trace \<and> done_file (trace ! i)
              \<longrightarrow> (\<exists>st. res = Completed st) \<and> Suc i = length trace)
       \<and> (\<forall>i. 2 \<le> i \<and> i < length trace \<and> \<not> isrunning_file (trace ! i)
              \<longrightarrow> (\<exists>st. res = Completed st) \<and> length trace \<le> i + 2)"
  proof cases
    case short
    have a: "\<And>i. i < 3 \<Longrightarrow> i = 0 \<or> i = 1 \<or> i = (2::nat)" by arith
    show ?thesis
      using short by (auto simp: nth_Cons' dest: a)
  next
    case full
    have a: "\<And>i. i < 5 \<Longrightarrow> i = 0 \<or> i = 1 \<or> i = 2 \<or> i = 3 \<or> i = (4::nat)" by arith
    show ?thesis
      using full by (auto simp: nth_Cons' dest!: a)
  qed
  from c r show ?thesis by blast
qed

lemma demo_completes:
  "rapidtide_main demo_options demo_env demo_pass \<lparr>isrunning_file = False, done_file = True\<rparr> =
     ([\<lparr>isrunning_file = False, done_file = True\<rparr>,
       \<lparr>isrunning_file = False, done_file = False\<rparr>,
       \<lparr>isrunning_file = True, done_file = False\<rparr>,
       \<lparr>isrunning_file = False, done_file = False\<rparr>,
       \<lparr>isrunning_file = False, done_file = True\<rparr>],
      [VoxelSimilarity 29 30, VoxelSimilarity 29 30, VoxelSimilarity 29 30],
      Completed \<lparr>stoprefining = True, refinestopreason = ''convergence'',
            previousnormoutputdata = [0, 1, 1, - 1], regressormse = [(1, 1 / 4), (2, 0)],
            thepass = 3, simcalls = [(29, 30), (29, 30), (29, 30)], passes_run = [1, 2]\<rparr>)"
  by code_simp

theorem lifecycle_markers_witness:
  "rapidtide_main demo_options demo_env demo_pass \<lparr>isrunning_file = False, done_file = True\<rparr> =
     ([\<lparr>isrunning_file = False, done_file = True\<rparr>,
       \<lparr>isrunning_file = False, done_file = False\<rparr>,
       \<lparr>isrunning_file = True, done_file = False\<rparr>,
       \<lparr>isrunning_file = False, done_file = False\<rparr>,
       \<lparr>isrunning_file = False, done_file = True\<rparr>],
      [VoxelSimilarity 29 30, VoxelSimilarity 29 30, VoxelSimilarity 29 30],
      Completed \<lparr>stoprefining = True, refinestopreason = ''convergence'',
            previousnormoutputdata = [0, 1, 1, - 1], regressormse = [(1, 1 / 4), (2, 0)],
            thepass = 3, simcalls = [(29, 30), (29, 30), (29, 30)], passes_run = [1, 2]\<rparr>)
   \<and> (\<exists>w st. snd (rapidtide_startup demo_options demo_env) = Next w
            \<and> run_passes demo_options w demo_pass (resampnonosref_y demo_env) = Inr st
            \<and> postfailure demo_env = None)
   \<and> rapidtide_main demo_options (demo_env\<lparr>postfailure := Some SystemExit\<rparr>) demo_pass
       \<lparr>isrunning_file = False, done_file = True\<rparr> =
     ([\<lparr>isrunning_file = False, done_file = True\<rparr>,
       \<lparr>isrunning_file = False, done_file = False\<rparr>,
       \<lparr>isrunning_file = True, done_file = False\<rparr>],
      [VoxelSimilarity 29 30, VoxelSimilarity 29 30, VoxelSimilarity 29 30], Failed SystemExit)
   \<and> \<not> (\<exists>w st. snd (rapidtide_startup demo_options (demo_env\<lparr>postfailure := Some SystemExit\<rparr>))
                   = Next w
            \<and> run_passes demo_options w demo_pass
                 (resampnonosref_y (demo_env\<lparr>postfailure := Some SystemExit\<rparr>)) = Inr st
            \<and> postfailure (demo_env\<lparr>postfailure := Some SystemExit\<rparr>) = None)"
proof -
  note h = demo_completes
  have g: "rapidtide_main demo_options (demo_env\<lparr>postfailure := Some SystemExit\<rparr>) demo_pass
       \<lparr>isrunning_file = False, done_file = True\<rparr> =
     ([\<lparr>isrunning_file = False, done_file = True\<rparr>,
       \<lparr>isrunning_file = False, done_file = False\<rparr>,
       \<lparr>isrunning_file = True, done_file = False\<rparr>],
      [VoxelSimilarity 29 30, VoxelSimilarity 29 30, VoxelSimilarity 29 30], Failed SystemExit)"
    by code_simp
  from lifecycle_markers [OF h]
  have a: "\<exists>w st. snd (rapidtide_startup demo_options demo_env) = Next w
            \<and> run_passes demo_options w demo_pass (resampnonosref_y demo_env) = Inr st
            \<and> postfailure demo_env = None"
    by blast
  from lifecycle_markers [OF g]
  have b: "\<not> (\<exists>w st. snd (rapidtide_startup demo_options
                              (demo_env\<lparr>postfailure := Some SystemExit\<rparr>)) = Next w
            \<and> run_passes demo_options w demo_pass
                 (resampnonosref_y (demo_env\<lparr>postfailure := Some SystemExit\<rparr>)) = Inr st
            \<and> postfailure (demo_env\<lparr>postfailure := Some SystemExit\<rparr>) = None)"
    by blast
  from h g a b show ?thesis by blast
qed

text \<open>
  C9 as stated fails: a run with \<open>fakerun\<close> returns normally at line 1320 and leaves the
  canary \<open>_ISRUNNING.txt\<close> behind.
\<close>

theorem lifecycle_markers_counterexample:
  "rapidtide_main (demo_options\<lparr>fakerun := True\<rparr>) demo_env demo_pass
       \<lparr>isrunning_file = False, done_file = False\<rparr> =
     ([\<lparr>isrunning_file = False, done_file = False\<rparr>,
       \<lparr>isrunning_file = False, done_file = False\<rparr>,
       \<lparr>isrunning_file = True, done_file = False\<rparr>], [], ReturnedEarly)
   \<and> isrunning_file (last [\<lparr>isrunning_file = False, done_file = False\<rparr>,
       \<lparr>isrunning_file = False, done_file = False\<rparr>,
       \<lparr>isrunning_file = True, done_file = False\<rparr>])"
  by code_simp

section \<open>Properties of the start-up checks\<close>

lemma regressor_sync_no_voxel: "VoxelSimilarity a b \<notin> set (regressor_sync od)"
  by (simp add: regressor_sync_def split: option.splits)

lemma startup_no_voxel: "VoxelSimilarity a b \<notin> set (fst (rapidtide_startup od env))"
  by (auto simp: rapidtide_startup_def regressor_sync_no_voxel
           split: sum.splits option.splits)

lemma startup_fmritr_error:
  assumes "get_fmritr od env = Inl e"
  shows "rapidtide_startup od env = ([], Raised e)"
  using assms by (simp add: rapidtide_startup_def)

lemma startup_lagbounds:
  assumes "get_fmritr od env = Inr fmritr"
    and "\<bar>lagmin od\<bar> > halfduration (fround env) (validstart env) (validend env) fmritr
         \<or> \<bar>lagmax od\<bar> > halfduration (fround env) (validstart env) (validend env) fmritr"
  shows "rapidtide_startup od env =
           ([], Raised
             (if adjust_oversampfactor (fround env) (oversampfactor od) fmritr = 0
                 \<and> \<not> fmritr_numpy od env
              then ArithmeticError
              else ValueError
                [Text (if \<bar>lagmin od\<bar>
                            > halfduration (fround env) (validstart env) (validend env) fmritr
                       then ''magnitude of lagmin exceeds ''
                       else ''magnitude of lagmax exceeds ''),
                 Num (halfduration (fround env) (validstart env) (validend env) fmritr),
                 Text '' - invalid'']))"
  using assms
  by (auto simp: rapidtide_startup_def get_oversamptr_def check_lagbounds_def)

lemma startup_window:
  assumes "get_fmritr od env = Inr fmritr"
    and "get_oversamptr (fround env) (fmritr_numpy od env) fmritr
           (adjust_oversampfactor (fround env) (oversampfactor od) fmritr) = Inr corrtr"
    and "check_lagbounds (fround env) od (validstart env) (validend env) fmritr = Inr ()"
    and "prepfailure env = None" and "\<not> fakerun od"
    and "is_inf corrtr
         \<or> (\<exists>c. corrtr = Fin c \<and> c \<noteq> 0
                \<and> lagmaxinpts (fround env) od c + lagmininpts (fround env) od c < 3)"
  shows "rapidtide_startup od env = (regressor_sync od, Raised range_too_narrow)"
  using assms
  by (auto simp: rapidtide_startup_def lag_window_def is_inf_def)

lemma startup_Next:
  assumes "snd (rapidtide_startup od env) = Next w"
  shows "\<exists>fmritr c.
           get_fmritr od env = Inr fmritr
         \<and> get_oversamptr (fround env) (fmritr_numpy od env) fmritr
             (adjust_oversampfactor (fround env) (oversampfactor od) fmritr) = Inr (Fin c)
         \<and> c \<noteq> 0
         \<and> \<bar>lagmin od\<bar> \<le> halfduration (fround env) (validstart env) (validend env) fmritr
         \<and> \<bar>lagmax od\<bar> \<le> halfduration (fround env) (validstart env) (validend env) fmritr
         \<and> w = (lagmininpts (fround env) od c, lagmaxinpts (fround env) od c)
         \<and> 3 \<le> lagmaxinpts (fround env) od c + lagmininpts (fround env) od c
         \<and> fst (rapidtide_startup od env) = regressor_sync od"
  using assms
  by (auto simp: rapidtide_startup_def check_lagbounds_def lag_window_def
           split: sum.splits if_splits option.splits fl.splits)

lemma main_startup_Raised:
  "rapidtide_startup od env = (ev, Raised e) \<Longrightarrow>
     rapidtide_main od env inp m0 =
       ([m0, m0\<lparr>done_file := False\<rparr>, m0\<lparr>done_file := False, isrunning_file := True\<rparr>],
        ev, Failed e)"
  by (simp add: rapidtide_main_def Let_def)

text \<open>
  C6, as amended. A text input without a time step ends the run with its ValueError before
  anything else. Once the repetition time is known, a lag bound whose magnitude exceeds half
  of the valid duration ends the run before any similarity computation of any kind: with the
  ValueError that names the bound and the limit, or, when the oversampling factor is zero
  and the repetition time is a Python float, with the division error of line 473, which
  comes first. When the run reaches the lag window (bounds accepted, preparation without
  failure, no \<open>fakerun\<close>) and fewer than 3 lag points are retained, the run ends with the
  ValueError that tells how to widen the search range; no per-voxel similarity pass has run
  by then, but with a regressor file the cross-correlation of the regressor with the global
  mean has. Conversely a lag window is only handed to the per-voxel similarity passes when
  both lag bounds are within half of the valid duration and at least 3 lag points are
  retained, and a run whose start-up hands over no window performs no per-voxel similarity
  pass.
\<close>

theorem configuration_errors_abort_before_similarity:
  "(get_fmritr od env = Inl e
    \<longrightarrow> rapidtide_main od env inp m0 =
          ([m0, m0\<lparr>done_file := False\<rparr>, m0\<lparr>done_file := False, isrunning_file := True\<rparr>],
           [], Failed e))
   \<and> (get_fmritr od env = Inr fmritr
       \<and> (\<bar>lagmin od\<bar> > halfduration (fround env) (validstart env) (validend env) fmritr
            \<or> \<bar>lagmax od\<bar> > halfduration (fround env) (validstart env) (validend env) fmritr)
    \<longrightarrow> rapidtide_main od env inp m0 =
          ([m0, m0\<lparr>done_file := False\<rparr>, m0\<lparr>done_file := False, isrunning_file := True\<rparr>],
           [],
           Failed
             (if adjust_oversampfactor (fround env) (oversampfactor od) fmritr = 0
                 \<and> \<not> fmritr_numpy od env
              then ArithmeticError
              else ValueError
                [Text (if \<bar>lagmin od\<bar>
                            > halfduration (fround env) (validstart env) (validend env) fmritr
                       then ''magnitude of lagmin exceeds ''
                       else ''magnitude of lagmax exceeds ''),
                 Num (halfduration (fround env) (validstart env) (validend env) fmritr),
                 Text '' - invalid''])))
   \<and> (get_fmritr od env = Inr fmritr
       \<and> get_oversamptr (fround env) (fmritr_numpy od env) fmritr
            (adjust_oversampfactor (fround env) (oversampfactor od) fmritr) = Inr corrtr
       \<and> check_lagbounds (fround env) od (validstart env) (validend env) fmritr = Inr ()
       \<and> prepfailure env = None \<and> \<not> fakerun od
       \<and> (is_inf corrtr
           \<or> (\<exists>c. corrtr = Fin c \<and> c \<noteq> 0
                  \<and> lagmaxinpts (fround env) od c + lagmininpts (fround env) od c < 3))
    \<longrightarrow> rapidtide_main od env inp m0 =
          ([m0, m0\<lparr>done_file := False\<rparr>, m0\<lparr>done_file := False, isrunning_file := True\<rparr>],
           regressor_sync od, Failed range_too_narrow)
        \<and> (\<forall>a b. VoxelSimilarity a b \<notin> set (regressor_sync od))
        \<and> (regressorfile od = None \<longrightarrow> regressor_sync od = []))
   \<and> (snd (rapidtide_startup od env) = Next w
    \<longrightarrow> (\<exists>tr c. get_fmritr od env = Inr tr
          \<and> get_oversamptr (fround env) (fmritr_numpy od env) tr
               (adjust_oversampfactor (fround env) (oversampfactor od) tr) = Inr (Fin c)
          \<and> c \<noteq> 0
          \<and> \<bar>lagmin od\<bar> \<le> halfduration (fround env) (validstart env) (validend env) tr
          \<and> \<bar>lagmax od\<bar> \<le> halfduration (fround env) (validstart env) (validend env) tr
          \<and> w = (lagmininpts (fround env) od c, lagmaxinpts (fround env) od c)
          \<and> 3 \<le> lagmaxinpts (fround env) od c + lagmininpts (fround env) od c))
   \<and> ((\<forall>w. snd (rapidtide_startup od env) \<noteq> Next w)
    \<longrightarrow> (\<forall>a b. VoxelSimilarity a b \<notin> set (fst (snd (rapidtide_main od env inp m0)))))"
proof -
  have 1: "get_fmritr od env = Inl e
    \<longrightarrow> rapidtide_main od env inp m0 =
          ([m0, m0\<lparr>done_file := False\<rparr>, m0\<lparr>done_file := False, isrunning_file := True\<rparr>],
           [], Failed e)"
    using startup_fmritr_error [of od env e] main_startup_Raised [of od env "[]" e inp m0]
    by blast
  have 2: "get_fmritr od env = Inr fmritr
       \<and> (\<bar>lagmin od\<bar> > halfduration (fround env) (validstart env) (validend env) fmritr
            \<or> \<bar>lagmax od\<bar> > halfduration (fround env) (validstart env) (validend env) fmritr)
    \<longrightarrow> rapidtide_main od env inp m0 =
          ([m0, m0\<lparr>done_file := False\<rparr>, m0\<lparr>done_file := False, isrunning_file := True\<rparr>],
           [],
           Failed
             (if adjust_oversampfactor (fround env) (oversampfactor od) fmritr = 0
                 \<and> \<not> fmritr_numpy od env
              then ArithmeticError
              else ValueError
                [Text (if \<bar>lagmin od\<bar>
                            > halfduration (fround env) (validstart env) (validend env) fmritr
                       then ''magnitude of lagmin exceeds ''
                       else ''magnitude of lagmax exceeds ''),
                 Num (halfduration (fround env) (validstart env) (validend env) fmritr),
                 Text '' - invalid'']))"
  proof
    assume a: "get_fmritr od env = Inr fmritr
       \<and> (\<bar>lagmin od\<bar> > halfduration (fround env) (validstart env) (validend env) fmritr
            \<or> \<bar>lagmax od\<bar> > halfduration (fround env) (validstart env) (validend env) fmritr)"
    then have g: "get_fmritr od env = Inr fmritr"
      and b: "\<bar>lagmin od\<bar> > halfduration (fround env) (validstart env) (validend env) fmritr
            \<or> \<bar>lagmax od\<bar> > halfduration (fround env) (validstart env) (validend env) fmritr"
      by blast+
    from main_startup_Raised [OF startup_lagbounds [OF g b]]
    show "rapidtide_main od env inp m0 =
          ([m0, m0\<lparr>done_file := False\<rparr>, m0\<lparr>done_file := False, isrunning_file := True\<rparr>],
           [],
           Failed
             (if adjust_oversampfactor (fround env) (oversampfactor od) fmritr = 0
                 \<and> \<not> fmritr_numpy od env
              then ArithmeticError
              else ValueError
                [Text (if \<bar>lagmin od\<bar>
                            > halfduration (fround env) (validstart env) (validend env) fmritr
                       then ''magnitude of lagmin exceeds ''
                       else ''magnitude of lagmax exceeds ''),
                 Num (halfduration (fround env) (validstart env) (validend env) fmritr),
                 Text '' - invalid'']))" .
  qed
  have 3: "get_fmritr od env = Inr fmritr
       \<and> get_oversamptr (fround env) (fmritr_numpy od env) fmritr
            (adjust_oversampfactor (fround env) (oversampfactor od) fmritr) = Inr corrtr
       \<and> check_lagbounds (fround env) od (validstart env) (validend env) fmritr = Inr ()
       \<and> prepfailure env = None \<and> \<not> fakerun od
       \<and> (is_inf corrtr
           \<or> (\<exists>c. corrtr = Fin c \<and> c \<noteq> 0
                  \<and> lagmaxinpts (fround env) od c + lagmininpts (fround env) od c < 3))
    \<longrightarrow> rapidtide_main od env inp m0 =
          ([m0, m0\<lparr>done_file := False\<rparr>, m0\<lparr>done_file := False, isrunning_file := True\<rparr>],
           regressor_sync od, Failed range_too_narrow)
        \<and> (\<forall>a b. VoxelSimilarity a b \<notin> set (regressor_sync od))
        \<and> (regressorfile od = None \<longrightarrow> regressor_sync od = [])"
  proof
    assume a: "get_fmritr od env = Inr fmritr
       \<and> get_oversamptr (fround env) (fmritr_numpy od env) fmritr
            (adjust_oversampfactor (fround env) (oversampfactor od) fmritr) = Inr corrtr
       \<and> check_lagbounds (fround env) od (validstart env) (validend env) fmritr = Inr ()
       \<and> prepfailure env = None \<and> \<not> fakerun od
       \<and> (is_inf corrtr
           \<or> (\<exists>c. corrtr = Fin c \<and> c \<noteq> 0
                  \<and> lagmaxinpts (fround env) od c + lagmininpts (fround env) od c < 3))"
    then have s: "rapidtide_startup od env = (regressor_sync od, Raised range_too_narrow)"
      using startup_window [of od env fmritr corrtr] by blast
    have n: "regressorfile od = None \<longrightarrow> regressor_sync od = []"
      by (simp add: regressor_sync_def)
    from main_startup_Raised [OF s] regressor_sync_no_voxel n
    show "rapidtide_main od env inp m0 =
          ([m0, m0\<lparr>done_file := False\<rparr>, m0\<lparr>done_file := False, isrunning_file := True\<rparr>],
           regressor_sync od, Failed range_too_narrow)
        \<and> (\<forall>a b. VoxelSimilarity a b \<notin> set (regressor_sync od))
        \<and> (regressorfile od = None \<longrightarrow> regressor_sync od = [])"
      by blast
  qed
  have 4: "snd (rapidtide_startup od env) = Next w
    \<longrightarrow> (\<exists>tr c. get_fmritr od env = Inr tr
          \<and> get_oversamptr (fround env) (fmritr_numpy od env) tr
               (adjust_oversampfactor (fround env) (oversampfactor od) tr) = Inr (Fin c)
          \<and> c \<noteq> 0
          \<and> \<bar>lagmin od\<bar> \<le> halfduration (fround env) (validstart env) (validend env) tr
          \<and> \<bar>lagmax od\<bar> \<le> halfduration (fround env) (validstart env) (validend env) tr
          \<and> w = (lagmininpts (fround env) od c, lagmaxinpts (fround env) od c)
          \<and> 3 \<le> lagmaxinpts (fround env) od c + lagmininpts (fround env) od c)"
    using startup_Next [of od env w] by blast
  have 5: "(\<forall>w. snd (rapidtide_startup od env) \<noteq> Next w)
    \<longrightarrow> (\<forall>a b. VoxelSimilarity a b \<notin> set (fst (snd (rapidtide_main od env inp m0))))"
  proof
    assume a: "\<forall>w. snd (rapidtide_startup od env) \<noteq> Next w"
    obtain ev sg where s: "rapidtide_startup od env = (ev, sg)"
      by (cases "rapidtide_startup od env")
    with a have "fst (snd (rapidtide_main od env inp m0)) = ev"
      by (cases sg) (simp_all add: rapidtide_main_def Let_def)
    moreover have "\<forall>a b. VoxelSimilarity a b \<notin> set ev"
      using startup_no_voxel [of _ _ od env] s by simp
    ultimately show "\<forall>a b. VoxelSimilarity a b \<notin> set (fst (snd (rapidtide_main od env inp m0)))"
      by simp
  qed
  from 1 2 3 4 5 show ?thesis by blast
qed

theorem configuration_errors_abort_before_similarity_witness:
  "rapidtide_main (demo_options\<lparr>lagmin := - 51\<rparr>) demo_env demo_pass
         \<lparr>isrunning_file = False, done_file = True\<rparr> =
       ([\<lparr>isrunning_file = False, done_file = True\<rparr>,
         \<lparr>isrunning_file = False, done_file = False\<rparr>,
         \<lparr>isrunning_file = True, done_file = False\<rparr>],
        [],
        Failed (ValueError [Text ''magnitude of lagmin exceeds '', Num 50, Text '' - invalid'']))
   \<and> rapidtide_main (demo_options\<lparr>lagmin := - 1, lagmax := 1\<rparr>) demo_env demo_pass
         \<lparr>isrunning_file = False, done_file = True\<rparr> =
       ([\<lparr>isrunning_file = False, done_file = True\<rparr>,
         \<lparr>isrunning_file = False, done_file = False\<rparr>,
         \<lparr>isrunning_file = True, done_file = False\<rparr>],
        [], Failed range_too_narrow)
   \<and> rapidtide_main demo_options (demo_env\<lparr>textio := True\<rparr>) demo_pass
         \<lparr>isrunning_file = False, done_file = True\<rparr> =
       ([\<lparr>isrunning_file = False, done_file = True\<rparr>,
         \<lparr>isrunning_file = False, done_file = False\<rparr>,
         \<lparr>isrunning_file = True, done_file = False\<rparr>],
        [],
        Failed (ValueError
          [Text ''for text file data input, you must use the -t option to set the timestep'']))
   \<and> snd (rapidtide_startup demo_options demo_env) = Next (29, 30)
   \<and> (\<exists>tr c. get_fmritr demo_options demo_env = Inr tr
          \<and> \<bar>lagmin demo_options\<bar>
              \<le> halfduration (fround demo_env) (validstart demo_env) (validend demo_env) tr
          \<and> \<bar>lagmax demo_options\<bar>
              \<le> halfduration (fround demo_env) (validstart demo_env) (validend demo_env) tr
          \<and> (29, 30) = (lagmininpts (fround demo_env) demo_options c,
                         lagmaxinpts (fround demo_env) demo_options c)
          \<and> 3 \<le> lagmaxinpts (fround demo_env) demo_options c
                 + lagmininpts (fround demo_env) demo_options c)
   \<and> (\<forall>a b. VoxelSimilarity a b
               \<notin> set (fst (snd (rapidtide_main (demo_options\<lparr>lagmin := - 51\<rparr>) demo_env demo_pass
                                   \<lparr>isrunning_file = False, done_file = True\<rparr>))))"
proof -
  have f: "get_fmritr (demo_options\<lparr>lagmin := - 51\<rparr>) demo_env = Inr 1"
    "get_fmritr (demo_options\<lparr>lagmin := - 1, lagmax := 1\<rparr>) demo_env = Inr 1"
    by (simp_all add: get_fmritr_def demo_options_def demo_env_def)
  have ft: "get_fmritr demo_options (demo_env\<lparr>textio := True\<rparr>) =
              Inl (ValueError
                [Text ''for text file data input, you must use the -t option to set the timestep''])"
    by (simp add: get_fmritr_def demo_options_def demo_env_def)
  have r: "fround demo_env = (\<lambda>x. x)"
    by (simp add: demo_env_def)
  have o: "adjust_oversampfactor (\<lambda>x. x) (oversampfactor (demo_options\<lparr>lagmin := - 51\<rparr>)) 1 = 1"
    "adjust_oversampfactor (\<lambda>x. x)
       (oversampfactor (demo_options\<lparr>lagmin := - 1, lagmax := 1\<rparr>)) 1 = 1"
    by (simp_all add: adjust_oversampfactor_def demo_options_def)
  have h: "halfduration (\<lambda>x. x) (validstart demo_env) (validend demo_env) 1 = 50"
    by (simp add: halfduration_def demo_env_def)
  have g: "get_oversamptr (\<lambda>x. x) (fmritr_numpy (demo_options\<lparr>lagmin := - 1, lagmax := 1\<rparr>) demo_env)
             1 1 = Inr (Fin 1)"
    by (simp add: get_oversamptr_def)
  have c: "check_lagbounds (\<lambda>x. x) (demo_options\<lparr>lagmin := - 1, lagmax := 1\<rparr>)
             (validstart demo_env) (validend demo_env) 1 = Inr ()"
    by (simp add: check_lagbounds_def h demo_options_def)
  have p: "prepfailure demo_env = None" "\<not> fakerun (demo_options\<lparr>lagmin := - 1, lagmax := 1\<rparr>)"
    "regressorfile (demo_options\<lparr>lagmin := - 1, lagmax := 1\<rparr>) = None"
    by (simp_all add: demo_options_def demo_env_def)
  have n: "lagmaxinpts (\<lambda>x. x) (demo_options\<lparr>lagmin := - 1, lagmax := 1\<rparr>) 1
         + lagmininpts (\<lambda>x. x) (demo_options\<lparr>lagmin := - 1, lagmax := 1\<rparr>) 1 = 1"
    by (simp add: lagmaxinpts_def lagmininpts_def py_int_def demo_options_def)
  have l: "\<bar>lagmin (demo_options\<lparr>lagmin := - 51\<rparr>)\<bar> = 51"
    by simp
  have s: "snd (rapidtide_startup demo_options demo_env) = Next (29, 30)"
    by code_simp
  have s51: "snd (rapidtide_startup (demo_options\<lparr>lagmin := - 51\<rparr>) demo_env) =
               Raised (ValueError [Text ''magnitude of lagmin exceeds '', Num 50,
                                   Text '' - invalid''])"
    by code_simp
  note t1 = configuration_errors_abort_before_similarity
    [where od = "demo_options\<lparr>lagmin := - 51\<rparr>" and env = demo_env and fmritr = 1
       and corrtr = "Fin 1" and e = SystemExit and inp = demo_pass
       and ?m0.0 = "\<lparr>isrunning_file = False, done_file = True\<rparr>" and w = "(29, 30)"]
  note t2 = configuration_errors_abort_before_similarity
    [where od = "demo_options\<lparr>lagmin := - 1, lagmax := 1\<rparr>" and env = demo_env and fmritr = 1
       and corrtr = "Fin 1" and e = SystemExit and inp = demo_pass
       and ?m0.0 = "\<lparr>isrunning_file = False, done_file = True\<rparr>" and w = "(29, 30)"]
  note t3 = configuration_errors_abort_before_similarity
    [where od = demo_options and env = "demo_env\<lparr>textio := True\<rparr>" and fmritr = 1
       and corrtr = "Fin 1"
       and e = "ValueError
          [Text ''for text file data input, you must use the -t option to set the timestep'']"
       and inp = demo_pass
       and ?m0.0 = "\<lparr>isrunning_file = False, done_file = True\<rparr>" and w = "(29, 30)"]
  note t4 = configuration_errors_abort_before_similarity
    [where od = demo_options and env = demo_env and fmritr = 1
       and corrtr = "Fin 1" and e = SystemExit and inp = demo_pass
       and ?m0.0 = "\<lparr>isrunning_file = False, done_file = True\<rparr>" and w = "(29, 30)"]
  have a: "rapidtide_main (demo_options\<lparr>lagmin := - 51\<rparr>) demo_env demo_pass
         \<lparr>isrunning_file = False, done_file = True\<rparr> =
       ([\<lparr>isrunning_file = False, done_file = True\<rparr>,
         \<lparr>isrunning_file = False, done_file = False\<rparr>,
         \<lparr>isrunning_file = True, done_file = False\<rparr>],
        [],
        Failed (ValueError [Text ''magnitude of lagmin exceeds '', Num 50, Text '' - invalid'']))"
    using t1 f(1) o(1) h l r by simp
  have b: "rapidtide_main (demo_options\<lparr>lagmin := - 1, lagmax := 1\<rparr>) demo_env demo_pass
         \<lparr>isrunning_file = False, done_file = True\<rparr> =
       ([\<lparr>isrunning_file = False, done_file = True\<rparr>,
         \<lparr>isrunning_file = False, done_file = False\<rparr>,
         \<lparr>isrunning_file = True, done_file = False\<rparr>],
        [], Failed range_too_narrow)"
    using t2 f(2) o(2) g c p n r by (simp add: regressor_sync_def)
  have d: "rapidtide_main demo_options (demo_env\<lparr>textio := True\<rparr>) demo_pass
         \<lparr>isrunning_file = False, done_file = True\<rparr> =
       ([\<lparr>isrunning_file = False, done_file = True\<rparr>,
         \<lparr>isrunning_file = False, done_file = False\<rparr>,
         \<lparr>isrunning_file = True, done_file = False\<rparr>],
        [],
        Failed (ValueError
          [Text ''for text file data input, you must use the -t option to set the timestep'']))"
    using t3 ft by simp
  have e: "\<exists>tr c. get_fmritr demo_options demo_env = Inr tr
          \<and> \<bar>lagmin demo_options\<bar>
              \<le> halfduration (fround demo_env) (validstart demo_env) (validend demo_env) tr
          \<and> \<bar>lagmax demo_options\<bar>
              \<le> halfduration (fround demo_env) (validstart demo_env) (validend demo_env) tr
          \<and> (29, 30) = (lagmininpts (fround demo_env) demo_options c,
                         lagmaxinpts (fround demo_env) demo_options c)
          \<and> 3 \<le> lagmaxinpts (fround demo_env) demo_options c
                 + lagmininpts (fround demo_env) demo_options c"
    using t4 s by blast
  have n51: "\<forall>w. snd (rapidtide_startup (demo_options\<lparr>lagmin := - 51\<rparr>) demo_env) \<noteq> Next w"
    unfolding s51 by simp
  have k: "\<forall>a b. VoxelSimilarity a b
               \<notin> set (fst (snd (rapidtide_main (demo_options\<lparr>lagmin := - 51\<rparr>) demo_env demo_pass
                                   \<lparr>isrunning_file = False, done_file = True\<rparr>)))"
    using t1 n51 by blast
  from a b d s e k show ?thesis by blast
qed

text \<open>
  C6 as stated fails. With a regressor file and the bounds -1 s and 1 s, the too-narrow
  ValueError comes after a similarity computation, the cross-correlation of the regressor
  with the global mean. With a repetition time given as an option, an oversampling factor of
  zero and \<open>lagmin\<close> = -51 s, beyond half of the 100 s of data, the run ends with the
  division error and not with a ValueError.
\<close>

theorem configuration_errors_counterexample:
  "rapidtide_main (demo_options\<lparr>lagmin := - 1, lagmax := 1, regressorfile := Some ''regressor.txt''\<rparr>)
       demo_env demo_pass \<lparr>isrunning_file = False, done_file = True\<rparr> =
     ([\<lparr>isrunning_file = False, done_file = True\<rparr>,
       \<lparr>isrunning_file = False, done_file = False\<rparr>,
       \<lparr>isrunning_file = True, done_file = False\<rparr>],
      [RegressorSync], Failed range_too_narrow)
   \<and> \<bar>lagmin (demo_options\<lparr>lagmin := - 51, oversampfactor := 0, realtr := 1\<rparr>)\<bar>
       > halfduration (fround demo_env) (validstart demo_env) (validend demo_env) 1
   \<and> rapidtide_main (demo_options\<lparr>lagmin := - 51, oversampfactor := 0, realtr := 1\<rparr>)
       demo_env demo_pass \<lparr>isrunning_file = False, done_file = True\<rparr> =
     ([\<lparr>isrunning_file = False, done_file = True\<rparr>,
       \<lparr>isrunning_file = False, done_file = False\<rparr>,
       \<lparr>isrunning_file = True, done_file = False\<rparr>],
      [], Failed ArithmeticError)"
  by code_simp

subsection \<open>The lag window\<close>

lemma passbody_Inl:
  "passbody od w inp p st = Inl (e, st') \<Longrightarrow> simcalls st' = simcalls st @ [w]"
  by (auto simp: passbody_def Let_def split: if_splits)

lemma passloop_simcalls_Inl:
  "passloop od w inp ps st = Inl (e, st') \<Longrightarrow> \<exists>k. simcalls st' = simcalls st @ replicate k w"
proof (induction ps arbitrary: st)
  case Nil
  then show ?case by simp
next
  case (Cons p ps)
  from Cons.prems have ns: "\<not> stoprefining st" by (auto split: if_splits)
  show ?case
  proof (cases "passbody od w (inp p) p st")
    case (Inl x)
    with Cons.prems ns have "passbody od w (inp p) p st = Inl (e, st')" by simp
    from passbody_Inl [OF this] have "simcalls st' = simcalls st @ replicate 1 w" by simp
    then show ?thesis by blast
  next
    case (Inr st1)
    with Cons.prems ns have l: "passloop od w inp ps st1 = Inl (e, st')" by simp
    from Cons.IH [OF l] obtain k where "simcalls st' = simcalls st1 @ replicate k w" by blast
    with passbody_simcalls [OF Inr]
    have "simcalls st' = simcalls st @ replicate (Suc k) w"
      by (simp add: replicate_app_Cons_same)
    then show ?thesis by blast
  qed
qed

lemma voxel_events_replicate:
  assumes "simcalls st = replicate k w"
  shows "voxel_events st = replicate k (VoxelSimilarity (fst w) (snd w))"
  using assms by (simp add: voxel_events_def map_replicate case_prod_beta)

lemma initial_simcalls:
  "\<exists>j. simcalls (initial_loopstate od w ref) = replicate j w"
proof (cases "echocancel od")
  case True
  then have "simcalls (initial_loopstate od w ref) = replicate 1 w"
    by (simp add: initial_loopstate_def)
  then show ?thesis by blast
next
  case False
  then have "simcalls (initial_loopstate od w ref) = replicate 0 w"
    by (simp add: initial_loopstate_def)
  then show ?thesis by blast
qed

lemma run_passes_events:
  "\<exists>k. voxel_events (case run_passes od w inp ref of Inl (e, st) \<Rightarrow> st | Inr st \<Rightarrow> st)
         = replicate k (VoxelSimilarity (fst w) (snd w))"
proof -
  obtain j where j: "simcalls (initial_loopstate od w ref) = replicate j w"
    using initial_simcalls by blast
  show ?thesis
  proof (cases "run_passes od w inp ref")
    case (Inl x)
    obtain e st where x: "x = (e, st)" by (cases x)
    with Inl have "passloop od w inp [1..numpasses od] (initial_loopstate od w ref) = Inl (e, st)"
      by (simp add: run_passes_def)
    from passloop_simcalls_Inl [OF this] j obtain k where "simcalls st = replicate (j + k) w"
      by (auto simp: replicate_add)
    from voxel_events_replicate [OF this] Inl x show ?thesis by auto
  next
    case (Inr st)
    then have "passloop od w inp [1..numpasses od] (initial_loopstate od w ref) = Inr st"
      by (simp add: run_passes_def)
    from passloop_simcalls [OF this] j obtain k where "simcalls st = replicate (j + k) w"
      by (auto simp: replicate_add)
    from voxel_events_replicate [OF this] Inr show ?thesis by auto
  qed
qed

lemma main_events:
  "fst (snd (rapidtide_main od env inp m0)) =
     (case snd (rapidtide_startup od env) of
        Next w \<Rightarrow> fst (rapidtide_startup od env)
                   @ voxel_events (case run_passes od w inp (resampnonosref_y env) of
                                     Inl (e, st) \<Rightarrow> st | Inr st \<Rightarrow> st)
      | _ \<Rightarrow> fst (rapidtide_startup od env))"
  by (cases "rapidtide_startup od env")
     (auto simp: rapidtide_main_def Let_def split: stage.splits sum.splits option.splits)

text \<open>
  C8, as amended. In every run, completed or not, each per-voxel similarity pass performed,
  the one of the echo cancellation and the one of each pass, is handed the two lag point
  counts that the start-up computed once from \<open>lagmin\<close>, \<open>lagmax\<close> and the oversampled
  sampling interval, so the retained window is
  \<open>[corrorigin - lagmininpts, corrorigin + lagmaxinpts]\<close> each time; a run whose start-up
  hands over no window performs no such pass. Nothing makes the bounds symmetric about zero.
\<close>

theorem lag_window_fixed_across_passes:
  assumes "rapidtide_main od env inp m0 = (trace, events, res)"
  shows "(\<forall>a b. VoxelSimilarity a b \<in> set events
            \<longrightarrow> snd (rapidtide_startup od env) = Next (a, b)
              \<and> retained_window corrorigin (a, b) = (corrorigin - a, corrorigin + b))
       \<and> (snd (rapidtide_startup od env) = Next w
            \<longrightarrow> (\<exists>fmritr c k.
                   get_fmritr od env = Inr fmritr
                 \<and> get_oversamptr (fround env) (fmritr_numpy od env) fmritr
                      (adjust_oversampfactor (fround env) (oversampfactor od) fmritr)
                    = Inr (Fin c)
                 \<and> w = (lagmininpts (fround env) od c, lagmaxinpts (fround env) od c)
                 \<and> events = regressor_sync od
                            @ replicate k (VoxelSimilarity (lagmininpts (fround env) od c)
                                                         (lagmaxinpts (fround env) od c))))
       \<and> ((\<forall>v. snd (rapidtide_startup od env) \<noteq> Next v)
            \<longrightarrow> events = fst (rapidtide_startup od env)
              \<and> (\<forall>a b. VoxelSimilarity a b \<notin> set events))"
proof -
  have ev: "events = fst (snd (rapidtide_main od env inp m0))"
    using assms by simp
  have B: "snd (rapidtide_startup od env) = Next w
            \<longrightarrow> (\<exists>fmritr c k.
                   get_fmritr od env = Inr fmritr
                 \<and> get_oversamptr (fround env) (fmritr_numpy od env) fmritr
                      (adjust_oversampfactor (fround env) (oversampfactor od) fmritr)
                    = Inr (Fin c)
                 \<and> w = (lagmininpts (fround env) od c, lagmaxinpts (fround env) od c)
                 \<and> events = regressor_sync od
                            @ replicate k (VoxelSimilarity (lagmininpts (fround env) od c)
                                                         (lagmaxinpts (fround env) od c)))"
    for w
  proof
    assume n: "snd (rapidtide_startup od env) = Next w"
    from startup_Next [OF n]
    obtain fmritr c where f: "get_fmritr od env = Inr fmritr"
      and g: "get_oversamptr (fround env) (fmritr_numpy od env) fmritr
                (adjust_oversampfactor (fround env) (oversampfactor od) fmritr) = Inr (Fin c)"
      and w: "w = (lagmininpts (fround env) od c, lagmaxinpts (fround env) od c)"
      and s: "fst (rapidtide_startup od env) = regressor_sync od"
      by blast
    from run_passes_events [of od w inp "resampnonosref_y env"]
    obtain k where k: "voxel_events (case run_passes od w inp (resampnonosref_y env) of
                                       Inl (e, st) \<Rightarrow> st | Inr st \<Rightarrow> st)
                        = replicate k (VoxelSimilarity (fst w) (snd w))"
      by blast
    have "events = regressor_sync od
                     @ replicate k (VoxelSimilarity (lagmininpts (fround env) od c)
                                                  (lagmaxinpts (fround env) od c))"
      unfolding ev main_events using n s k w by simp
    with f g w show "\<exists>fmritr c k.
                   get_fmritr od env = Inr fmritr
                 \<and> get_oversamptr (fround env) (fmritr_numpy od env) fmritr
                      (adjust_oversampfactor (fround env) (oversampfactor od) fmritr)
                    = Inr (Fin c)
                 \<and> w = (lagmininpts (fround env) od c, lagmaxinpts (fround env) od c)
                 \<and> events = regressor_sync od
                            @ replicate k (VoxelSimilarity (lagmininpts (fround env) od c)
                                                         (lagmaxinpts (fround env) od c))"
      by blast
  qed
  have C: "(\<forall>v. snd (rapidtide_startup od env) \<noteq> Next v)
            \<longrightarrow> events = fst (rapidtide_startup od env)
              \<and> (\<forall>a b. VoxelSimilarity a b \<notin> set events)"
  proof
    assume a: "\<forall>v. snd (rapidtide_startup od env) \<noteq> Next v"
    then have "events = fst (rapidtide_startup od env)"
      unfolding ev main_events by (cases "snd (rapidtide_startup od env)") simp_all
    with startup_no_voxel [of _ _ od env]
    show "events = fst (rapidtide_startup od env) \<and> (\<forall>a b. VoxelSimilarity a b \<notin> set events)"
      by simp
  qed
  have A: "\<forall>a b. VoxelSimilarity a b \<in> set events
            \<longrightarrow> snd (rapidtide_startup od env) = Next (a, b)
              \<and> retained_window corrorigin (a, b) = (corrorigin - a, corrorigin + b)"
  proof (intro allI impI)
    fix a b assume m: "VoxelSimilarity a b \<in> set events"
    with C obtain v where v: "snd (rapidtide_startup od env) = Next v" by blast
    from B [of v] v obtain c k where
      w: "v = (lagmininpts (fround env) od c, lagmaxinpts (fround env) od c)"
      and e: "events = regressor_sync od
                 @ replicate k (VoxelSimilarity (lagmininpts (fround env) od c)
                                              (lagmaxinpts (fround env) od c))"
      by blast
    from m e regressor_sync_no_voxel [of a b od]
    have "VoxelSimilarity a b = VoxelSimilarity (lagmininpts (fround env) od c)
                                               (lagmaxinpts (fround env) od c)"
      by (auto split: if_splits)
    with w v show "snd (rapidtide_startup od env) = Next (a, b)
              \<and> retained_window corrorigin (a, b) = (corrorigin - a, corrorigin + b)"
      by (simp add: retained_window_def)
  qed
  from A B [of w] C show ?thesis by blast
qed

theorem lag_window_fixed_across_passes_witness:
  "rapidtide_main demo_options demo_env
       (\<lambda>q. if q = 2 then \<lparr>numinmask = 0, voxelsprocessed_rr = 0, normoutputdata = []\<rparr>
             else demo_pass q)
       \<lparr>isrunning_file = False, done_file = True\<rparr> =
     ([\<lparr>isrunning_file = False, done_file = True\<rparr>,
       \<lparr>isrunning_file = False, done_file = False\<rparr>,
       \<lparr>isrunning_file = True, done_file = False\<rparr>],
      [VoxelSimilarity 29 30, VoxelSimilarity 29 30, VoxelSimilarity 29 30],
      Failed SystemExit)
   \<and> snd (rapidtide_startup demo_options demo_env) = Next (29, 30)
   \<and> retained_window 100 (29, 30) = (100 - 29, 100 + 30)
   \<and> (\<exists>fmritr c k.
         get_fmritr demo_options demo_env = Inr fmritr
       \<and> (29, 30) = (lagmininpts (fround demo_env) demo_options c,
                      lagmaxinpts (fround demo_env) demo_options c)
       \<and> [VoxelSimilarity 29 30, VoxelSimilarity 29 30, VoxelSimilarity 29 30]
           = regressor_sync demo_options
             @ replicate k (VoxelSimilarity (lagmininpts (fround demo_env) demo_options c)
                                          (lagmaxinpts (fround demo_env) demo_options c)))
   \<and> rapidtide_main (demo_options\<lparr>lagmin := - 51\<rparr>) demo_env demo_pass
       \<lparr>isrunning_file = False, done_file = True\<rparr> =
     ([\<lparr>isrunning_file = False, done_file = True\<rparr>,
       \<lparr>isrunning_file = False, done_file = False\<rparr>,
       \<lparr>isrunning_file = True, done_file = False\<rparr>],
      [],
      Failed (ValueError [Text ''magnitude of lagmin exceeds '', Num 50, Text '' - invalid'']))
   \<and> [] = fst (rapidtide_startup (demo_options\<lparr>lagmin := - 51\<rparr>) demo_env)"
proof -
  have h: "rapidtide_main demo_options demo_env
       (\<lambda>q. if q = 2 then \<lparr>numinmask = 0, voxelsprocessed_rr = 0, normoutputdata = []\<rparr>
             else demo_pass q)
       \<lparr>isrunning_file = False, done_file = True\<rparr> =
     ([\<lparr>isrunning_file = False, done_file = True\<rparr>,
       \<lparr>isrunning_file = False, done_file = False\<rparr>,
       \<lparr>isrunning_file = True, done_file = False\<rparr>],
      [VoxelSimilarity 29 30, VoxelSimilarity 29 30, VoxelSimilarity 29 30],
      Failed SystemExit)"
    by code_simp
  have h2: "rapidtide_main (demo_options\<lparr>lagmin := - 51\<rparr>) demo_env demo_pass
       \<lparr>isrunning_file = False, done_file = True\<rparr> =
     ([\<lparr>isrunning_file = False, done_file = True\<rparr>,
       \<lparr>isrunning_file = False, done_file = False\<rparr>,
       \<lparr>isrunning_file = True, done_file = False\<rparr>],
      [],
      Failed (ValueError [Text ''magnitude of lagmin exceeds '', Num 50, Text '' - invalid'']))"
    by code_simp
  have s51: "snd (rapidtide_startup (demo_options\<lparr>lagmin := - 51\<rparr>) demo_env) =
               Raised (ValueError [Text ''magnitude of lagmin exceeds '', Num 50,
                                   Text '' - invalid''])"
    by code_simp
  have n51: "\<forall>v. snd (rapidtide_startup (demo_options\<lparr>lagmin := - 51\<rparr>) demo_env) \<noteq> Next v"
    unfolding s51 by simp
  have m: "VoxelSimilarity 29 30
             \<in> set [VoxelSimilarity 29 30, VoxelSimilarity 29 30, VoxelSimilarity 29 30]"
    by simp
  note t = lag_window_fixed_across_passes [OF h, of 100 "(29, 30)"]
  from t
  have "\<forall>a b. VoxelSimilarity a b
                 \<in> set [VoxelSimilarity 29 30, VoxelSimilarity 29 30, VoxelSimilarity 29 30]
            \<longrightarrow> snd (rapidtide_startup demo_options demo_env) = Next (a, b)
              \<and> retained_window 100 (a, b) = (100 - a, 100 + b)"
    by (elim conjE)
  with m have a: "snd (rapidtide_startup demo_options demo_env) = Next (29, 30)
              \<and> retained_window 100 (29, 30) = (100 - 29, 100 + 30)"
    by blast
  from t a
  have b: "\<exists>fmritr c k.
         get_fmritr demo_options demo_env = Inr fmritr
       \<and> (29, 30) = (lagmininpts (fround demo_env) demo_options c,
                      lagmaxinpts (fround demo_env) demo_options c)
       \<and> [VoxelSimilarity 29 30, VoxelSimilarity 29 30, VoxelSimilarity 29 30]
           = regressor_sync demo_options
             @ replicate k (VoxelSimilarity (lagmininpts (fround demo_env) demo_options c)
                                          (lagmaxinpts (fround demo_env) demo_options c))"
    by blast
  from lag_window_fixed_across_passes [OF h2, of 100 "(29, 30)"] n51
  have c: "[] = fst (rapidtide_startup (demo_options\<lparr>lagmin := - 51\<rparr>) demo_env)"
    by blast
  from h a b h2 c show ?thesis by blast
qed

text \<open>
  C8 as stated fails: the bounds -5 s and 20 s pass every check and give the window of 4
  points before and 20 points after the origin; and the symmetric bounds -30 s and 30 s give
  29 points before and 30 after, because of the two roundings to integers.
\<close>

theorem lag_bounds_symmetric_counterexample:
  "snd (rapidtide_startup (demo_options\<lparr>lagmin := - 5, lagmax := 20\<rparr>) demo_env) = Next (4, 20)
   \<and> lagmin (demo_options\<lparr>lagmin := - 5, lagmax := 20\<rparr>)
       \<noteq> - lagmax (demo_options\<lparr>lagmin := - 5, lagmax := 20\<rparr>)
   \<and> retained_window 100 (4, 20) = (96, 120)
   \<and> lagmin demo_options = - lagmax demo_options
   \<and> snd (rapidtide_startup demo_options demo_env) = Next (29, 30)
   \<and> retained_window 100 (29, 30) = (71, 130)"
  by code_simp


section \<open>Properties of the despeckling loop\<close>

lemma despeckle_subpass_Some:
  assumes "despeckle_subpass mf refit n vv thr st = Some st'"
  shows "0 < numdespeckled (despeckle_initlags mf n vv thr (lagtimes st))"
    and "numdespeckled (despeckle_initlags mf n vv thr (lagtimes st)) < lastnumdespeckled st"
    and "lastnumdespeckled st' = numdespeckled (despeckle_initlags mf n vv thr (lagtimes st))"
    and "despecklemasksize st' =
           despecklemasksize st @ [numdespeckled (despeckle_initlags mf n vv thr (lagtimes st))]"
    and "lagtimes st' =
           snd (fitcorr_despeckling refit (despeckle_initlags mf n vv thr (lagtimes st))
                  (lagtimes st))"
  using assms
  by (auto simp: despeckle_subpass_def Let_def fitcorr_despeckling_def numdespeckled_def
           split: if_splits)

lemma numdespeckled_pos_length: "0 < numdespeckled xs \<Longrightarrow> 0 < length xs"
  by (cases xs) (simp_all add: numdespeckled_def)

lemma despeckle_subpass_iff:
  "(despeckle_subpass mf refit n vv thr st \<noteq> None) \<longleftrightarrow>
     (0 < numdespeckled (despeckle_initlags mf n vv thr (lagtimes st))
      \<and> numdespeckled (despeckle_initlags mf n vv thr (lagtimes st)) < lastnumdespeckled st)"
  using numdespeckled_pos_length [of "despeckle_initlags mf n vv thr (lagtimes st)"]
  by (auto simp: despeckle_subpass_def Let_def split: prod.splits)

lemma despeckle_loop_None:
  "despeckle_subpass mf refit n vv thr st = None \<Longrightarrow> despeckle_loop mf refit n vv thr k st = st"
  by (cases k) simp_all

lemma despeckle_loop_length:
  "length (despecklemasksize (despeckle_loop mf refit n vv thr k st))
     \<le> length (despecklemasksize st) + k"
proof (induction k arbitrary: st)
  case 0
  then show ?case by simp
next
  case (Suc k)
  show ?case
  proof (cases "despeckle_subpass mf refit n vv thr st")
    case None
    then show ?thesis by simp
  next
    case (Some st')
    from despeckle_subpass_Some(4) [OF Some]
    have "length (despecklemasksize st') = Suc (length (despecklemasksize st))" by simp
    with Suc.IH [of st'] Some show ?thesis by simp
  qed
qed

lemma despeckle_inv_step:
  assumes "despeckle_inv st" and "despeckle_subpass mf refit n vv thr st = Some st'"
  shows "despeckle_inv st'"
proof -
  note f = despeckle_subpass_Some [OF assms(2)]
  let ?num = "numdespeckled (despeckle_initlags mf n vv thr (lagtimes st))"
  have a: "sorted_wrt (>) (despecklemasksize st @ [?num])"
    using assms(1) f(2) by (fastforce simp: despeckle_inv_def sorted_wrt_append)
  have b: "\<forall>c \<in> set (despecklemasksize st @ [?num]). ?num \<le> c \<and> 0 < c \<and> c < 1000000"
    using assms(1) f(1,2) by (fastforce simp: despeckle_inv_def)
  have c: "?num \<le> 1000000"
    using assms(1) f(2) by (simp add: despeckle_inv_def)
  show ?thesis
    unfolding despeckle_inv_def f(3) f(4) using a b c by blast
qed

lemma despeckle_inv_loop:
  "despeckle_inv st \<Longrightarrow> despeckle_inv (despeckle_loop mf refit n vv thr k st)"
proof (induction k arbitrary: st)
  case 0
  then show ?case by simp
next
  case (Suc k)
  show ?case
  proof (cases "despeckle_subpass mf refit n vv thr st")
    case None
    with Suc.prems show ?thesis by simp
  next
    case (Some st')
    from despeckle_inv_step [OF Suc.prems Some] Suc.IH [of st'] Some
    show ?thesis by simp
  qed
qed

lemma despeckle_inv_start: "despeckle_inv (despeckle_start lags)"
  by (simp add: despeckle_inv_def despeckle_start_def)

lemma despeckle_inv_result: "despeckle_inv (despeckle mf refit n vv thr dp lags)"
  by (simp add: despeckle_def despeckle_inv_loop despeckle_inv_start)

lemma despeckle_length: "length (despecklemasksize (despeckle mf refit n vv thr dp lags)) \<le> nat dp"
  using despeckle_loop_length [of mf refit n vv thr "nat dp" "despeckle_start lags"]
  by (simp add: despeckle_def despeckle_start_def)

lemma numdespeckled_suspects:
  assumes "\<forall>v \<in> set vv. mf (populate n vv lags) ! v \<noteq> nodespeckle"
  shows "numdespeckled (despeckle_initlags mf n vv thr lags) = length (suspects mf n vv thr lags)"
proof -
  have "\<And>P f. \<forall>v \<in> set vv. f v \<noteq> nodespeckle \<Longrightarrow>
          length (filter (\<lambda>l. l \<noteq> nodespeckle) (map (\<lambda>v. if P v then f v else nodespeckle) vv))
            = length (filter P vv)"
    by (induction vv) simp_all
  from this [OF assms] show ?thesis
    by (simp add: numdespeckled_def despeckle_initlags_def suspects_def Let_def)
qed

lemma nonsuspect_unchanged:
  assumes s: "despeckle_subpass mf refit n vv thr st = Some st'"
    and l: "length (lagtimes st) = length vv" and i: "i < length vv"
    and ns: "vv ! i \<notin> set (suspects mf n vv thr (lagtimes st))"
  shows "lagtimes st' ! i = lagtimes st ! i"
proof -
  have m: "vv ! i \<in> set vv" using i by simp
  with ns have "despeckle_initlags mf n vv thr (lagtimes st) ! i = nodespeckle"
    using i by (simp add: despeckle_initlags_def suspects_def Let_def)
  then show ?thesis
    using despeckle_subpass_Some(5) [OF s] l i by (simp add: fitcorr_despeckling_def)
qed

text \<open>
  C3. Despeckling runs at most \<open>despeckle_passes\<close> refits in a pass; the numbers of voxels
  refitted decrease strictly from one refit to the next, each is positive, and the first is
  below the initial value 1000000 of \<open>lastnumdespeckled\<close>. A sub-pass refits exactly when
  its count of voxels to despeckle is positive and strictly below the count of the previous
  refit; otherwise the loop ends there with the lags as they are. That count is the number
  of suspect voxels, those whose lag deviates from the spatial median by more than
  \<open>despeckle_thresh\<close>, as long as no median equals the marker value -1000000. A refit
  leaves the lag of every voxel that is not a suspect unchanged.
\<close>

theorem despeckling_bounded_and_local:
  "length (despecklemasksize (despeckle mf refit n vv thr dp lags)) \<le> nat dp
   \<and> sorted_wrt (>) (despecklemasksize (despeckle mf refit n vv thr dp lags))
   \<and> (\<forall>c \<in> set (despecklemasksize (despeckle mf refit n vv thr dp lags)). 0 < c \<and> c < 1000000)
   \<and> ((despeckle_subpass mf refit n vv thr st \<noteq> None) \<longleftrightarrow>
        (0 < numdespeckled (despeckle_initlags mf n vv thr (lagtimes st))
         \<and> numdespeckled (despeckle_initlags mf n vv thr (lagtimes st)) < lastnumdespeckled st))
   \<and> (despeckle_subpass mf refit n vv thr st = None
        \<longrightarrow> despeckle_loop mf refit n vv thr k st = st)
   \<and> ((\<forall>v \<in> set vv. mf (populate n vv (lagtimes st)) ! v \<noteq> nodespeckle)
        \<longrightarrow> numdespeckled (despeckle_initlags mf n vv thr (lagtimes st))
              = length (suspects mf n vv thr (lagtimes st)))
   \<and> (despeckle_subpass mf refit n vv thr st = Some st'
        \<longrightarrow> lastnumdespeckled st' = numdespeckled (despeckle_initlags mf n vv thr (lagtimes st))
          \<and> despecklemasksize st' =
              despecklemasksize st @ [numdespeckled (despeckle_initlags mf n vv thr (lagtimes st))])
   \<and> (despeckle_subpass mf refit n vv thr st = Some st'
       \<and> length (lagtimes st) = length vv \<and> i < length vv
       \<and> vv ! i \<notin> set (suspects mf n vv thr (lagtimes st))
        \<longrightarrow> lagtimes st' ! i = lagtimes st ! i)"
proof -
  have inv: "despeckle_inv (despeckle mf refit n vv thr dp lags)"
    by (rule despeckle_inv_result)
  have 1: "length (despecklemasksize (despeckle mf refit n vv thr dp lags)) \<le> nat dp"
    by (rule despeckle_length)
  have 2: "sorted_wrt (>) (despecklemasksize (despeckle mf refit n vv thr dp lags))"
    using inv by (simp add: despeckle_inv_def)
  have 3: "\<forall>c \<in> set (despecklemasksize (despeckle mf refit n vv thr dp lags)). 0 < c \<and> c < 1000000"
    using inv by (simp add: despeckle_inv_def)
  note 4 = despeckle_subpass_iff [of mf refit n vv thr st]
  note 5 = despeckle_loop_None [of mf refit n vv thr st k]
  note 6 = numdespeckled_suspects [of vv mf n "lagtimes st" thr]
  note 7 = despeckle_subpass_Some(3,4) [of mf refit n vv thr st st']
  note 8 = nonsuspect_unchanged [of mf refit n vv thr st st' i]
  from 1 2 3 4 5 6 7 8 show ?thesis by blast
qed

lemma median_filter3_outlier: "median_filter3 (3, 1, 1) [0, 9, 0] = [0, 0, 0]"
  by code_simp

lemma median_filter3_flat: "median_filter3 (3, 1, 1) [0, 0, 0] = [0, 0, 0]"
  by code_simp

lemma populate_outlier: "populate 3 [0, 1, 2] [0, 9, 0] = [0, 9, 0]"
  by code_simp

lemma populate_flat: "populate 3 [0, 1, 2] [0, 0, 0] = [0, 0, 0]"
  by code_simp

lemma initlags_outlier:
  "despeckle_initlags (median_filter3 (3, 1, 1)) 3 [0, 1, 2] 1 [0, 9, 0]
     = [nodespeckle, 0, nodespeckle]"
  unfolding despeckle_initlags_def populate_outlier median_filter3_outlier Let_def
  by simp

lemma initlags_flat:
  "despeckle_initlags (median_filter3 (3, 1, 1)) 3 [0, 1, 2] 1 [0, 0, 0]
     = [nodespeckle, nodespeckle, nodespeckle]"
  unfolding despeckle_initlags_def populate_flat median_filter3_flat Let_def
  by simp

lemma upt_3: "[0..<3] = [0, 1, 2]"
  by (simp add: upt_rec)

lemma subpass_outlier:
  "despeckle_subpass (median_filter3 (3, 1, 1)) (\<lambda>i seed. seed) 3 [0, 1, 2] 1
        (despeckle_start [0, 9, 0]) =
       Some \<lparr>lagtimes = [0, 0, 0], lastnumdespeckled = 1, voxelsprocessed_fc_ds = 1,
             despecklemasksize = [1]\<rparr>"
  unfolding despeckle_subpass_def despeckle_start_def despeckle_state.simps initlags_outlier
    fitcorr_despeckling_def
  by (simp add: numdespeckled_def nodespeckle_def upt_3)

lemma subpass_flat:
  "despeckle_subpass (median_filter3 (3, 1, 1)) (\<lambda>i seed. seed) 3 [0, 1, 2] 1
        \<lparr>lagtimes = [0, 0, 0], lastnumdespeckled = 1, voxelsprocessed_fc_ds = 1,
             despecklemasksize = [1]\<rparr> = None"
  unfolding despeckle_subpass_def despeckle_state.simps initlags_flat
  by (simp add: numdespeckled_def)

lemma despeckle_outlier:
  "despeckle (median_filter3 (3, 1, 1)) (\<lambda>i seed. seed) 3 [0, 1, 2] 1 3 [0, 9, 0] =
     \<lparr>lagtimes = [0, 0, 0], lastnumdespeckled = 1, voxelsprocessed_fc_ds = 1,
      despecklemasksize = [1]\<rparr>"
proof -
  have n: "nat 3 = Suc (Suc (Suc 0))" by simp
  show ?thesis
    unfolding despeckle_def n despeckle_loop.simps subpass_outlier option.simps subpass_flat
    by simp
qed

lemma suspects_outlier:
  "suspects (median_filter3 (3, 1, 1)) 3 [0, 1, 2] 1 (lagtimes (despeckle_start [0, 9, 0])) = [1]"
  unfolding suspects_def despeckle_start_def despeckle_state.simps populate_outlier
    median_filter3_outlier
  by simp

theorem despeckling_bounded_and_local_witness:
  "despeckle (median_filter3 (3, 1, 1)) (\<lambda>i seed. seed) 3 [0, 1, 2] 1 3 [0, 9, 0] =
     \<lparr>lagtimes = [0, 0, 0], lastnumdespeckled = 1, voxelsprocessed_fc_ds = 1,
      despecklemasksize = [1]\<rparr>
   \<and> despeckle_subpass (median_filter3 (3, 1, 1)) (\<lambda>i seed. seed) 3 [0, 1, 2] 1
        (despeckle_start [0, 9, 0]) =
       Some \<lparr>lagtimes = [0, 0, 0], lastnumdespeckled = 1, voxelsprocessed_fc_ds = 1,
             despecklemasksize = [1]\<rparr>
   \<and> suspects (median_filter3 (3, 1, 1)) 3 [0, 1, 2] 1 (lagtimes (despeckle_start [0, 9, 0])) = [1]
   \<and> lagtimes \<lparr>lagtimes = [0, 0, 0], lastnumdespeckled = 1, voxelsprocessed_fc_ds = 1,
               despecklemasksize = [1]\<rparr> ! 0
       = lagtimes (despeckle_start [0, 9, 0]) ! 0
   \<and> length (despecklemasksize (despeckle (median_filter3 (3, 1, 1)) (\<lambda>i seed. seed) 3
                [0, 1, 2] 1 3 [0, 9, 0])) \<le> nat 3"
proof -
  note a = despeckle_outlier
  note b = subpass_outlier
  note c = suspects_outlier
  have d: "length (lagtimes (despeckle_start [0, 9, 0])) = length [0, 1, 2 :: nat]"
    by (simp add: despeckle_start_def)
  have e: "(0::nat) < length [0, 1, 2 :: nat]" by simp
  have f: "[0, 1, 2 :: nat] ! 0
             \<notin> set (suspects (median_filter3 (3, 1, 1)) 3 [0, 1, 2] 1
                      (lagtimes (despeckle_start [0, 9, 0])))"
    unfolding c by simp
  note t = despeckling_bounded_and_local
    [where mf = "median_filter3 (3, 1, 1)" and refit = "\<lambda>i seed. seed" and n = 3
       and vv = "[0, 1, 2]" and thr = 1 and dp = 3 and lags = "[0, 9, 0]"
       and st = "despeckle_start [0, 9, 0]"
       and st' = "\<lparr>lagtimes = [0, 0, 0], lastnumdespeckled = 1, voxelsprocessed_fc_ds = 1,
                   despecklemasksize = [1]\<rparr>"
       and i = 0 and k = 3]
  from t have t8: "despeckle_subpass (median_filter3 (3, 1, 1)) (\<lambda>i seed. seed) 3 [0, 1, 2] 1
           (despeckle_start [0, 9, 0]) =
          Some \<lparr>lagtimes = [0, 0, 0], lastnumdespeckled = 1, voxelsprocessed_fc_ds = 1,
             despecklemasksize = [1]\<rparr>
       \<and> length (lagtimes (despeckle_start [0, 9, 0])) = length [0, 1, 2 :: nat]
       \<and> 0 < length [0, 1, 2 :: nat]
       \<and> [0, 1, 2 :: nat] ! 0 \<notin> set (suspects (median_filter3 (3, 1, 1)) 3 [0, 1, 2] 1
                      (lagtimes (despeckle_start [0, 9, 0])))
        \<longrightarrow> lagtimes \<lparr>lagtimes = [0, 0, 0], lastnumdespeckled = 1, voxelsprocessed_fc_ds = 1,
               despecklemasksize = [1]\<rparr> ! 0 = lagtimes (despeckle_start [0, 9, 0]) ! 0"
    by (elim conjE)
  from t have h: "length (despecklemasksize (despeckle (median_filter3 (3, 1, 1))
                (\<lambda>i seed. seed) 3 [0, 1, 2] 1 3 [0, 9, 0])) \<le> nat 3"
    by (elim conjE)
  from t8 b d e f
  have g: "lagtimes \<lparr>lagtimes = [0, 0, 0], lastnumdespeckled = 1, voxelsprocessed_fc_ds = 1,
               despecklemasksize = [1]\<rparr> ! 0
       = lagtimes (despeckle_start [0, 9, 0]) ! 0"
    by (rule_tac mp) (assumption, intro conjI, assumption+)
  from a b c g h show ?thesis by (intro conjI)
qed

section \<open>The fallback masks\<close>

text \<open>
  Since \<open>fitmask\<close> has dtype \<open>uint16\<close>, \<open>offsetmask\<close> is \<open>fitmask\<close> itself and
  the two assignments zero \<open>fitmask\<close>. Whenever the warning is logged, the mask the
  offset calculation falls back on is therefore the emptied one.
\<close>

lemma offsetmask_fallback_is_empty:
  assumes "arr_dtype (h ! fitmask) = UInt16"
    and "offsetmask_block h fitmask includemask excludemask = (h', r, True)"
  shows "r = fitmask \<and> getmasksize (arr_data (h' ! r)) = 0"
  using assms
  by (auto simp: offsetmask_block_def np_uint16_def Let_def split: if_splits)

text \<open>
  C7 fails on the code. Two valid voxels, the fit succeeded in the second only and the
  offset include mask holds the first only: the warning is logged, but the fit mask that
  the offset calculation falls back on has been zeroed and selects no voxel. Two fitted
  voxels that were both despeckled, with \<open>refinedespeckled\<close> off: the warning is logged
  and the despeckle exclusion is dropped, but the fit mask handed to \<open>makerefinemask\<close>
  has been zeroed at both voxels.
\<close>

theorem fallback_masks_empty_the_fit_mask:
  "offsetmask_block [\<lparr>arr_dtype = UInt16, arr_data = [0, 1]\<rparr>] 0 (Some [1, 0]) None
     = ([\<lparr>arr_dtype = UInt16, arr_data = [0, 0]\<rparr>], 0, True)
   \<and> getmasksize (arr_data ([\<lparr>arr_dtype = UInt16, arr_data = [0, 0]\<rparr>] ! 0)) = 0
   \<and> refineexclude_block False 3 [\<lparr>arr_dtype = UInt16, arr_data = [1, 1]\<rparr>] 0 None None [5, 7]
     = ([\<lparr>arr_dtype = UInt16, arr_data = [0, 0]\<rparr>], None, True)"
  by (simp add: offsetmask_block_def refineexclude_block_def np_uint16_def zero_where_def
      getmasksize_def)

end
